theory Spec2Isabelle
  imports Complex_Main "HOL-Library.AList" "HOL-Library.List_Lexorder" "HOL-Library.Char_ord"
begin

section \<open>Failures\<close>

text \<open>
  The Python sources signal failure with exceptions. Every raise of the modelled code is a
  value of \<open>error\<close>; a function that may raise returns \<open>error + 'a\<close>. The source uses
  \<^verbatim>\<open>ValueError\<close> for three different situations, told apart by their message; they are
  three constructors here.
  \<^item> \<open>InvalidFormat\<close>: \<^verbatim>\<open>ValueError("Invalid duration format: ...")\<close>
  \<^item> \<open>ConcurrentModification\<close>: \<^verbatim>\<open>ValueError("... has been modified since it was read ...")\<close>
  \<^item> \<open>OutOfRange\<close>: \<^verbatim>\<open>ValueError("NumUniqKey must be between 1 and ...")\<close>
  \<^item> \<open>NotFound\<close>: \<^verbatim>\<open>FileNotFoundError\<close>
  \<^item> \<open>YAMLError\<close>: the YAML library rejects the text
  \<^item> \<open>TypeError\<close>, \<open>ZeroDivisionError\<close>, \<open>AttributeError\<close>: the Python built-ins
  \<^item> \<open>IOFailure stage\<close>: an \<^verbatim>\<open>OSError\<close> of the file system, tagged with the step that met it
  \<^item> \<open>NodeConnectionError\<close>: the exception class of the cluster manager
\<close>

datatype io_stage = BackupCopy | OpenTemp | Serialize | Rename | MakeScratch

datatype error =
    InvalidFormat
  | ConcurrentModification
  | OutOfRange
  | NotFound
  | YAMLError
  | TypeError
  | ZeroDivisionError
  | AttributeError
  | IOFailure io_stage
  | NodeConnectionError

section \<open>Python text\<close>

text \<open>
  A Python \<^verbatim>\<open>str\<close> is a sequence of Unicode code points; a code point is a natural
  number. \<open>ascii\<close> turns a literal of this theory into the \<^verbatim>\<open>str\<close> with the same
  characters. File names and the bytes of files stay 8-bit strings.
\<close>

type_synonym ustring = "nat list"

definition ascii :: "string \<Rightarrow> ustring" where
  "ascii s = map of_char s"

text \<open>
  The code points for which \<^verbatim>\<open>str.isspace()\<close> holds, which are the ones \<^verbatim>\<open>str.strip()\<close>
  removes: the ASCII whitespace (tab to carriage return, 0x1C to 0x1F, space) and the
  Unicode ones (next line 0x85, no-break space 0xA0, 0x1680, 0x2000 to 0x200A, 0x2028,
  0x2029, 0x202F, 0x205F, 0x3000).
\<close>

definition is_space :: "nat \<Rightarrow> bool" where
  "is_space c \<longleftrightarrow> c \<in> set [0x09, 0x0A, 0x0B, 0x0C, 0x0D, 0x1C, 0x1D, 0x1E, 0x1F, 0x20,
                            0x85, 0xA0, 0x1680,
                            0x2000, 0x2001, 0x2002, 0x2003, 0x2004, 0x2005, 0x2006, 0x2007,
                            0x2008, 0x2009, 0x200A,
                            0x2028, 0x2029, 0x202F, 0x205F, 0x3000]"

definition strip :: "ustring \<Rightarrow> ustring" where
  "strip s = rev (dropWhile is_space (rev (dropWhile is_space s)))"

text \<open>
  \<^verbatim>\<open>\d\<close> in a pattern on \<^verbatim>\<open>str\<close> matches every Unicode decimal digit (category Nd), and
  \<^verbatim>\<open>int()\<close> reads each of them by its digit value. Below 128 these are the ten ASCII
  digits. Which code points from 128 on are decimal digits, and with which value, is a
  table of the interpreter's Unicode database; it is the parameter \<open>nd\<close> (for instance
  0x661, ARABIC-INDIC DIGIT ONE, has the value 1).
\<close>

type_synonym unicode_db = "nat \<Rightarrow> nat option"

definition decimal :: "unicode_db \<Rightarrow> nat \<Rightarrow> nat option" where
  "decimal nd c =
     (if c < 128 then (if 48 \<le> c \<and> c \<le> 57 then Some (c - 48) else None) else nd c)"

definition is_digit :: "unicode_db \<Rightarrow> nat \<Rightarrow> bool" where
  "is_digit nd c \<longleftrightarrow> decimal nd c \<noteq> None"

definition digit_val :: "unicode_db \<Rightarrow> nat \<Rightarrow> nat" where
  "digit_val nd c = (case decimal nd c of Some v \<Rightarrow> v | None \<Rightarrow> 0)"

text \<open>\<^verbatim>\<open>int(value)\<close> on a string of decimal digits.\<close>

definition int_of_digits :: "unicode_db \<Rightarrow> ustring \<Rightarrow> nat" where
  "int_of_digits nd ds = foldl (\<lambda>a c. 10 * a + digit_val nd c) 0 ds"

section \<open>Duration parser (yaml\_editor.py)\<close>

text \<open>
  Python floats are modelled as exact reals: the multiplier of \<^verbatim>\<open>ms\<close> is the exact
  thousandth, which the float \<^verbatim>\<open>0.001\<close> approximates, and the product of the integer and
  the multiplier is the exact product, which the float product approximates. The limits
  of the interpreter on the size of an integer literal and of a float are not modelled.
\<close>

definition duration_units :: "ustring list" where
  "duration_units = [ascii ''ms'', ascii ''s'', ascii ''m'', ascii ''h'']"

text \<open>
  \<^verbatim>\<open>re.match(r'^(\d+)(ms|s|m|h)$', s)\<close>: a greedy non-empty run of digits, then one of the
  units, then the end of the string. No unit starts with a digit, so the digit group is
  the longest digit prefix. \<^verbatim>\<open>$\<close> also matches just before a final line feed. The result
  is the pair of groups.
\<close>

definition match_duration :: "unicode_db \<Rightarrow> ustring \<Rightarrow> (ustring \<times> ustring) option" where
  "match_duration nd s =
     (let ds = takeWhile (is_digit nd) s;
          r = dropWhile (is_digit nd) s;
          u = (if r \<noteq> [] \<and> last r = 0x0A then butlast r else r)
      in if ds \<noteq> [] \<and> u \<in> set duration_units then Some (ds, u) else None)"

definition multipliers :: "ustring \<Rightarrow> real" where
  "multipliers u =
     (if u = ascii ''ms'' then 1 / 1000
      else if u = ascii ''s'' then 1
      else if u = ascii ''m'' then 60
      else 3600)"

text \<open>The argument is \<open>None\<close> for Python's \<^verbatim>\<open>None\<close>.\<close>

definition parse_duration :: "unicode_db \<Rightarrow> ustring option \<Rightarrow> error + real" where
  "parse_duration nd duration_str =
     (case duration_str of
        None \<Rightarrow> Inr 1
      | Some s \<Rightarrow>
          if s = [] then Inr 1
          else (case match_duration nd (strip s) of
                  None \<Rightarrow> Inl InvalidFormat
                | Some (v, unit) \<Rightarrow> Inr (real (int_of_digits nd v) * multipliers unit)))"

text \<open>\<^verbatim>\<open>int(x)\<close> on a float truncates towards zero; \<^verbatim>\<open>x // y\<close> is the floor of the quotient.\<close>

definition py_int :: "real \<Rightarrow> int" where
  "py_int x = (if 0 \<le> x then \<lfloor>x\<rfloor> else \<lceil>x\<rceil>)"

definition floordiv :: "real \<Rightarrow> real \<Rightarrow> real" where
  "floordiv x y = of_int \<lfloor>x / y\<rfloor>"

definition digit_char :: "nat \<Rightarrow> char" where
  "digit_char d = ''0123456789'' ! d"

fun str_nat :: "nat \<Rightarrow> string" where
  "str_nat n = (if n < 10 then [digit_char n] else str_nat (n div 10) @ [digit_char (n mod 10)])"

declare str_nat.simps [simp del]

text \<open>\<^verbatim>\<open>str(i)\<close> of a Python integer, as an f-string renders it: ASCII characters.\<close>

definition str_int :: "int \<Rightarrow> string" where
  "str_int i = (if i < 0 then CHR ''-'' # str_nat (nat (- i)) else str_nat (nat i))"

definition format_duration :: "real \<Rightarrow> ustring" where
  "format_duration seconds =
     (if seconds < 1 then ascii (str_int (py_int (seconds * 1000)) @ ''ms'')
      else if seconds < 60 then ascii (str_int (py_int seconds) @ ''s'')
      else if seconds < 3600 then ascii (str_int (py_int (floordiv seconds 60)) @ ''m'')
      else ascii (str_int (py_int (floordiv seconds 3600)) @ ''h''))"

text \<open>The unit that \<open>format_duration\<close> picks, for stating the round trip.\<close>

definition format_unit :: "real \<Rightarrow> ustring" where
  "format_unit seconds =
     (if seconds < 1 then ascii ''ms''
      else if seconds < 60 then ascii ''s''
      else if seconds < 3600 then ascii ''m''
      else ascii ''h'')"

text \<open>
  The shape the specification names: a non-empty run of decimal digits followed by one
  of the four units, and nothing else.
\<close>

definition duration_shape :: "unicode_db \<Rightarrow> ustring \<Rightarrow> ustring \<Rightarrow> ustring \<Rightarrow> bool" where
  "duration_shape nd s ds u \<longleftrightarrow>
     s = ds @ u \<and> ds \<noteq> [] \<and> list_all (is_digit nd) ds \<and> u \<in> set duration_units"

text \<open>
  The same shape as a test that computes: some unit is a proper suffix of the string and
  everything before it is digits.
\<close>

definition has_duration_shape :: "unicode_db \<Rightarrow> ustring \<Rightarrow> bool" where
  "has_duration_shape nd s =
     list_ex (\<lambda>u. length u < length s
                 \<and> drop (length s - length u) s = u
                 \<and> list_all (is_digit nd) (take (length s - length u) s)) duration_units"

text \<open>
  A table with the ten Arabic-Indic digits (0x660 to 0x669) as the only decimal digits
  from 128 on, for concrete runs.
\<close>

definition demo_decimal :: unicode_db where
  "demo_decimal c = (if 0x660 \<le> c \<and> c \<le> 0x669 then Some (c - 0x660) else None)"

section \<open>Files and documents\<close>

text \<open>
  A path is the list of its components (\<^verbatim>\<open>pathlib\<close>'s \<^verbatim>\<open>parts\<close>). The file system is the
  finite table of its regular files and their bytes, keyed by the path as the program
  builds it (a component \<^verbatim>\<open>..\<close> is not resolved); a directory exists when a file lies
  below it.
\<close>

type_synonym path = "string list"
type_synonym fs = "(path \<times> string) list"

text \<open>\<^verbatim>\<open>s.split(sep)\<close> for a separator of one character.\<close>

fun split_on :: "char \<Rightarrow> string \<Rightarrow> string list" where
  "split_on sep [] = [[]]"
| "split_on sep (c # cs) =
     (if c = sep then [] # split_on sep cs
      else (case split_on sep cs of [] \<Rightarrow> [[c]] | x # xs \<Rightarrow> (c # x) # xs))"

text \<open>
  \<^verbatim>\<open>d / name\<close> for a string \<^verbatim>\<open>name\<close>: \<^verbatim>\<open>pathlib\<close> splits the string at its slashes and drops
  the empty components and the components \<^verbatim>\<open>.\<close>; a string that starts with a slash is an
  absolute path and replaces \<open>d\<close>. So an empty name adds nothing, and a name with a slash
  adds several components.
\<close>

definition path_parts :: "string \<Rightarrow> string list" where
  "path_parts name = filter (\<lambda>part. part \<noteq> [] \<and> part \<noteq> ''.'') (split_on CHR ''/'' name)"

definition join :: "path \<Rightarrow> string \<Rightarrow> path" where
  "join d name = (if take 1 name = ''/'' then ''/'' # path_parts name else d @ path_parts name)"

definition exists :: "fs \<Rightarrow> path \<Rightarrow> bool" where
  "exists files p \<longleftrightarrow> map_of files p \<noteq> None"

text \<open>\<^verbatim>\<open>PurePath.suffix\<close>: the part of the name from its last dot, unless that dot is the
  first or the last character.\<close>

definition suffix :: "string \<Rightarrow> string" where
  "suffix name =
     (let t = takeWhile (\<lambda>c. c \<noteq> CHR ''.'') (rev name)
      in if CHR ''.'' \<in> set name \<and> t \<noteq> [] \<and> length t + 1 < length name
         then CHR ''.'' # rev t else [])"

definition stem :: "string \<Rightarrow> string" where
  "stem name = take (length name - length (suffix name)) name"

definition with_suffix :: "path \<Rightarrow> string \<Rightarrow> path" where
  "with_suffix p sfx = butlast p @ [stem (last p) @ sfx]"

text \<open>
  A scalar of a YAML document as Python holds it: \<^verbatim>\<open>None\<close>, a \<^verbatim>\<open>bool\<close>, an \<^verbatim>\<open>int\<close>, a
  (finite) \<^verbatim>\<open>float\<close> or a \<^verbatim>\<open>str\<close>.
\<close>

datatype yaml_value = YNull | YBool bool | YInt int | YFloat real | YStr ustring

text \<open>
  A configuration document. The value under \<^verbatim>\<open>uniquekey\<close> is
  \<^item> missing (\<open>NoUniquekey\<close>), or
  \<^item> a mapping, with the value of its \<^verbatim>\<open>NumUniqKey\<close> entry if it has one (any scalar: the
    file may hold \<^verbatim>\<open>NumUniqKey:\<close> with nothing behind it, or a text) and its other
    entries as opaque text (\<open>UniquekeyMap\<close>), or
  \<^item> a string or a sequence in which \<^verbatim>\<open>"NumUniqKey" in\<close> is false (\<open>TextUniquekey\<close>), or
  \<^item> any other value (\<open>ScalarUniquekey\<close>: null, a number, a boolean, on which the
    membership test raises, or a string or sequence in which the test is true, on which
    the subscript raises).

  The value under \<^verbatim>\<open>period\<close> is a scalar; \<^verbatim>\<open>Include_sub_modules\<close> is a string, a list
  of strings, or a value that cannot be iterated (\<open>IncludeOther\<close>: null, a number, a
  boolean). Everything else in the document (other keys, comments, layout) is carried
  along as opaque text. A document is a mapping, or \<^verbatim>\<open>None\<close> (what the loader returns for
  a text without content).
\<close>

datatype uniquekey_value =
    NoUniquekey
  | ScalarUniquekey
  | TextUniquekey
  | UniquekeyMap (NumUniqKey: "yaml_value option") (other_entries: string)

datatype include_value = IncludeString string | IncludeList "string list" | IncludeOther

record config_data =
  uniquekey :: uniquekey_value
  period :: "yaml_value option"
  Include_sub_modules :: "include_value option"
  remainder :: string

datatype yaml_doc = NullDoc | MapDoc config_data

text \<open>
  The constants of \<^verbatim>\<open>config.py\<close> and the library functions the editor calls: the content
  hash, the YAML loader (\<open>None\<close> when it rejects the text), the YAML dumper, and the
  table of the decimal digits beyond ASCII.
\<close>

record env =
  CONF_D_DIR :: path
  BACKUPS_DIR :: path
  MAX_UNIQUE_KEY :: int
  DEFAULT_UNIQUE_KEY :: int
  md5 :: "string \<Rightarrow> string"
  yaml_load :: "string \<Rightarrow> yaml_doc option"
  yaml_dump :: "config_data \<Rightarrow> string"
  unicode_decimal :: unicode_db

text \<open>
  What the operating system does to one guarded write: whether copying the backup,
  opening the temporary file or renaming it fails, and whether the dumper raises (then
  with the bytes it had already written).
\<close>

record io =
  backup_fails :: bool
  open_temp_fails :: bool
  dump_fails :: "string option"
  replace_fails :: bool

definition no_faults :: io where
  "no_faults = \<lparr>backup_fails = False, open_temp_fails = False, dump_fails = None,
                 replace_fails = False\<rparr>"

section \<open>Checksum-guarded file store (yaml\_editor.py)\<close>

definition calculate_checksum :: "env \<Rightarrow> fs \<Rightarrow> path \<Rightarrow> error + string" where
  "calculate_checksum e files file_path =
     (case map_of files file_path of
        None \<Rightarrow> Inl NotFound
      | Some bytes \<Rightarrow> Inr (md5 e bytes))"

text \<open>\<open>timestamp\<close> is \<^verbatim>\<open>datetime.now().strftime("%Y%m%d_%H%M%S")\<close>.\<close>

definition create_backup :: "env \<Rightarrow> io \<Rightarrow> string \<Rightarrow> fs \<Rightarrow> path \<Rightarrow> (error + path) \<times> fs" where
  "create_backup e os timestamp files file_path =
     (let backup = BACKUPS_DIR e @ [last file_path @ ''.bak.'' @ timestamp]
      in case map_of files file_path of
           None \<Rightarrow> (Inl NotFound, files)
         | Some bytes \<Rightarrow>
             if backup_fails os then (Inl (IOFailure BackupCopy), files)
             else (Inr backup, AList.update backup bytes files))"

record write_result =
  success :: bool
  backup_path :: path
  new_checksum :: string

text \<open>The body of the \<^verbatim>\<open>try\<close> block of the three writers.\<close>

definition dump_and_replace ::
  "env \<Rightarrow> io \<Rightarrow> fs \<Rightarrow> path \<Rightarrow> path \<Rightarrow> config_data \<Rightarrow> (error + string) \<times> fs" where
  "dump_and_replace e os files temp_path config_path data =
     (if open_temp_fails os then (Inl (IOFailure OpenTemp), files)
      else case dump_fails os of
             Some written \<Rightarrow> (Inl (IOFailure Serialize), AList.update temp_path written files)
           | None \<Rightarrow>
               let files1 = AList.update temp_path (yaml_dump e data) files
               in if replace_fails os then (Inl (IOFailure Rename), files1)
                  else
                    let files2 = AList.update config_path (yaml_dump e data)
                                   (AList.delete temp_path files1)
                    in (case calculate_checksum e files2 config_path of
                          Inl err \<Rightarrow> (Inl err, files2)
                        | Inr checksum \<Rightarrow> (Inr checksum, files2)))"

text \<open>The \<^verbatim>\<open>except\<close> handler: \<^verbatim>\<open>if temp_path.exists(): temp_path.unlink()\<close>, then re-raise.\<close>

definition unlink_if_exists :: "fs \<Rightarrow> path \<Rightarrow> fs" where
  "unlink_if_exists files temp_path =
     (if exists files temp_path then AList.delete temp_path files else files)"

text \<open>
  \<^verbatim>\<open>write_main_config\<close>, \<^verbatim>\<open>write_module_config\<close> and \<^verbatim>\<open>write_submodule_config\<close> have the
  same body, statement for statement, after they have built \<open>config_path\<close>; that body is
  \<open>write_config\<close>.
\<close>

definition write_config ::
  "env \<Rightarrow> io \<Rightarrow> string \<Rightarrow> fs \<Rightarrow> path \<Rightarrow> config_data \<Rightarrow> string \<Rightarrow> (error + write_result) \<times> fs" where
  "write_config e os timestamp files config_path data original_checksum =
     (case calculate_checksum e files config_path of
        Inl err \<Rightarrow> (Inl err, files)
      | Inr current_checksum \<Rightarrow>
          if current_checksum \<noteq> original_checksum then (Inl ConcurrentModification, files)
          else (case create_backup e os timestamp files config_path of
                  (Inl err, files1) \<Rightarrow> (Inl err, files1)
                | (Inr backup, files1) \<Rightarrow>
                    let temp_path = with_suffix config_path ''.tmp''
                    in (case dump_and_replace e os files1 temp_path config_path data of
                          (Inl err, files2) \<Rightarrow> (Inl err, unlink_if_exists files2 temp_path)
                        | (Inr checksum, files2) \<Rightarrow>
                            (Inr \<lparr>success = True, backup_path = backup,
                                  new_checksum = checksum\<rparr>, files2))))"

definition main_config_path :: "env \<Rightarrow> path" where
  "main_config_path e = join (CONF_D_DIR e) ''conf.yml''"

definition module_config_path :: "env \<Rightarrow> string \<Rightarrow> path" where
  "module_config_path e module_name =
     (let module_dir = join (CONF_D_DIR e) module_name in join module_dir ''conf.yml'')"

definition submodule_config_path :: "env \<Rightarrow> string \<Rightarrow> string \<Rightarrow> path" where
  "submodule_config_path e module_name submodule_name =
     (let module_dir = join (CONF_D_DIR e) module_name
      in join module_dir (submodule_name @ ''.yml''))"

definition write_main_config ::
  "env \<Rightarrow> io \<Rightarrow> string \<Rightarrow> fs \<Rightarrow> config_data \<Rightarrow> string \<Rightarrow> (error + write_result) \<times> fs" where
  "write_main_config e os timestamp files data original_checksum =
     write_config e os timestamp files (main_config_path e) data original_checksum"

definition write_module_config ::
  "env \<Rightarrow> io \<Rightarrow> string \<Rightarrow> fs \<Rightarrow> string \<Rightarrow> config_data \<Rightarrow> string
     \<Rightarrow> (error + write_result) \<times> fs" where
  "write_module_config e os timestamp files module_name data original_checksum =
     write_config e os timestamp files (module_config_path e module_name) data
       original_checksum"

definition write_submodule_config ::
  "env \<Rightarrow> io \<Rightarrow> string \<Rightarrow> fs \<Rightarrow> string \<Rightarrow> string \<Rightarrow> config_data \<Rightarrow> string
     \<Rightarrow> (error + write_result) \<times> fs" where
  "write_submodule_config e os timestamp files module_name submodule_name data
       original_checksum =
     write_config e os timestamp files (submodule_config_path e module_name submodule_name)
       data original_checksum"

text \<open>
  The three readers share their body in the same way. (Opening a path that is a directory
  fails as well; the table holds regular files only, and such a path is reported like a
  missing file.)
\<close>

definition read_config :: "env \<Rightarrow> fs \<Rightarrow> path \<Rightarrow> error + (yaml_doc \<times> string)" where
  "read_config e files config_path =
     (case map_of files config_path of
        None \<Rightarrow> Inl NotFound
      | Some content \<Rightarrow>
          (case yaml_load e content of
             None \<Rightarrow> Inl YAMLError
           | Some data \<Rightarrow>
               (case calculate_checksum e files config_path of
                  Inl err \<Rightarrow> Inl err
                | Inr checksum \<Rightarrow> Inr (data, checksum))))"

definition read_module_config :: "env \<Rightarrow> fs \<Rightarrow> string \<Rightarrow> error + (yaml_doc \<times> string)" where
  "read_module_config e files module_name = read_config e files (module_config_path e module_name)"

definition read_submodule_config ::
  "env \<Rightarrow> fs \<Rightarrow> string \<Rightarrow> string \<Rightarrow> error + (yaml_doc \<times> string)" where
  "read_submodule_config e files module_name submodule_name =
     read_config e files (submodule_config_path e module_name submodule_name)"

text \<open>
  A Python value passed where the source expects the new key. \<^verbatim>\<open>isinstance(v, int)\<close>
  holds for an \<^verbatim>\<open>int\<close> and, \<^verbatim>\<open>bool\<close> being a subclass of \<^verbatim>\<open>int\<close>, for \<^verbatim>\<open>True\<close> and
  \<^verbatim>\<open>False\<close>, which compare as 1 and 0. \<open>int_instance\<close> gives, for such a value, the
  integer it compares as and the scalar that is stored in the document.
\<close>

datatype pyval = PyInt int | PyBool bool | PyFloat real | PyStr ustring | PyNone

definition int_instance :: "pyval \<Rightarrow> (int \<times> yaml_value) option" where
  "int_instance v =
     (case v of
        PyInt n \<Rightarrow> Some (n, YInt n)
      | PyBool b \<Rightarrow> Some (if b then 1 else 0, YBool b)
      | _ \<Rightarrow> None)"

text \<open>The values the specification admits: an integer in \<open>[1, MAX_UNIQUE_KEY]\<close>.\<close>

definition key_in_range :: "env \<Rightarrow> pyval \<Rightarrow> bool" where
  "key_in_range e v = (case v of PyInt n \<Rightarrow> n \<in> {1 .. MAX_UNIQUE_KEY e} | _ \<Rightarrow> False)"

text \<open>
  The values that pass the check of the mutators,
  \<^verbatim>\<open>not isinstance(v, int) or v < 1 or v > MAX_UNIQUE_KEY\<close>: an integer in the range, and
  \<^verbatim>\<open>True\<close> (which compares as 1) when the range is not empty.
\<close>

definition key_accepted :: "env \<Rightarrow> pyval \<Rightarrow> bool" where
  "key_accepted e v =
     (case v of
        PyInt n \<Rightarrow> n \<in> {1 .. MAX_UNIQUE_KEY e}
      | PyBool b \<Rightarrow> b \<and> 1 \<le> MAX_UNIQUE_KEY e
      | _ \<Rightarrow> False)"

text \<open>
  \<^verbatim>\<open>if "uniquekey" not in data: data["uniquekey"] = {}\<close> and then
  \<^verbatim>\<open>data["uniquekey"]["NumUniqKey"] = num_uniquekey\<close>. The membership test raises on
  \<^verbatim>\<open>None\<close>, and the item assignment raises on everything but a mapping.
\<close>

definition set_num_uniq_key :: "yaml_doc \<Rightarrow> yaml_value \<Rightarrow> error + config_data" where
  "set_num_uniq_key doc v =
     (case doc of
        NullDoc \<Rightarrow> Inl TypeError
      | MapDoc data \<Rightarrow>
          (case uniquekey data of
             NoUniquekey \<Rightarrow> Inr (data\<lparr>uniquekey := UniquekeyMap (Some v) []\<rparr>)
           | ScalarUniquekey \<Rightarrow> Inl TypeError
           | TextUniquekey \<Rightarrow> Inl TypeError
           | UniquekeyMap _ others \<Rightarrow> Inr (data\<lparr>uniquekey := UniquekeyMap (Some v) others\<rparr>)))"

definition update_module_uniquekey ::
  "env \<Rightarrow> io \<Rightarrow> string \<Rightarrow> fs \<Rightarrow> string \<Rightarrow> pyval \<Rightarrow> string \<Rightarrow> (error + write_result) \<times> fs" where
  "update_module_uniquekey e os timestamp files module_name num_uniquekey original_checksum =
     (case int_instance num_uniquekey of
        None \<Rightarrow> (Inl OutOfRange, files)
      | Some (n, stored) \<Rightarrow>
          if n < 1 \<or> n > MAX_UNIQUE_KEY e then (Inl OutOfRange, files)
          else (case read_module_config e files module_name of
                  Inl err \<Rightarrow> (Inl err, files)
                | Inr (data, current_checksum) \<Rightarrow>
                    if current_checksum \<noteq> original_checksum
                    then (Inl ConcurrentModification, files)
                    else (case set_num_uniq_key data stored of
                            Inl err \<Rightarrow> (Inl err, files)
                          | Inr data' \<Rightarrow>
                              write_module_config e os timestamp files module_name data'
                                original_checksum)))"

definition update_submodule_uniquekey ::
  "env \<Rightarrow> io \<Rightarrow> string \<Rightarrow> fs \<Rightarrow> string \<Rightarrow> string \<Rightarrow> pyval \<Rightarrow> string
     \<Rightarrow> (error + write_result) \<times> fs" where
  "update_submodule_uniquekey e os timestamp files module_name submodule_name num_uniquekey
       original_checksum =
     (case int_instance num_uniquekey of
        None \<Rightarrow> (Inl OutOfRange, files)
      | Some (n, stored) \<Rightarrow>
          if n < 1 \<or> n > MAX_UNIQUE_KEY e then (Inl OutOfRange, files)
          else (case read_submodule_config e files module_name submodule_name of
                  Inl err \<Rightarrow> (Inl err, files)
                | Inr (data, current_checksum) \<Rightarrow>
                    if current_checksum \<noteq> original_checksum
                    then (Inl ConcurrentModification, files)
                    else (case set_num_uniq_key data stored of
                            Inl err \<Rightarrow> (Inl err, files)
                          | Inr data' \<Rightarrow>
                              write_submodule_config e os timestamp files module_name
                                submodule_name data' original_checksum)))"

section \<open>EPS calculation engine (eps\_calculator.py)\<close>

text \<open>
  \<^verbatim>\<open>_parse_duration\<close> as Python runs it on a scalar that need not be a string:
  \<^verbatim>\<open>if not duration_str: return 1.0\<close> takes every falsy value (\<^verbatim>\<open>None\<close>, \<^verbatim>\<open>False\<close>, 0, 0.0,
  the empty string), and \<^verbatim>\<open>.strip()\<close> raises on every other value that is not a string.
\<close>

definition parse_duration_to_seconds :: "env \<Rightarrow> yaml_value \<Rightarrow> error + real" where
  "parse_duration_to_seconds e duration_str =
     (case duration_str of
        YNull \<Rightarrow> parse_duration (unicode_decimal e) None
      | YStr s \<Rightarrow> parse_duration (unicode_decimal e) (Some s)
      | YBool b \<Rightarrow> if b then Inl AttributeError else Inr 1
      | YInt n \<Rightarrow> if n = 0 then Inr 1 else Inl AttributeError
      | YFloat x \<Rightarrow> if x = 0 then Inr 1 else Inl AttributeError)"

text \<open>A directory exists when some file lies below it.\<close>

definition is_dir :: "fs \<Rightarrow> path \<Rightarrow> bool" where
  "is_dir files d \<longleftrightarrow> list_ex (\<lambda>(p, _). length d < length p \<and> take (length d) p = d) files"

text \<open>\<^verbatim>\<open>p.exists()\<close>: a file or a directory.\<close>

definition path_exists :: "fs \<Rightarrow> path \<Rightarrow> bool" where
  "path_exists files p \<longleftrightarrow> exists files p \<or> is_dir files p"

text \<open>\<^verbatim>\<open>d.iterdir()\<close>: the names of the entries directly in \<open>d\<close>, files and directories.\<close>

definition iterdir :: "fs \<Rightarrow> path \<Rightarrow> string list" where
  "iterdir files d =
     remdups (map (\<lambda>(p, _). p ! length d)
       (filter (\<lambda>(p, _). length d < length p \<and> take (length d) p = d) files))"

text \<open>
  \<^verbatim>\<open>d.glob("*.yml")\<close>: the names of the entries directly in \<open>d\<close>, files and directories,
  that end in \<^verbatim>\<open>.yml\<close>.
\<close>

definition matches_yml :: "string \<Rightarrow> bool" where
  "matches_yml name \<longleftrightarrow> 4 \<le> length name \<and> drop (length name - 4) name = ''.yml''"

definition glob_yml :: "fs \<Rightarrow> path \<Rightarrow> string list" where
  "glob_yml files d = filter matches_yml (iterdir files d)"

definition get_submodules :: "env \<Rightarrow> fs \<Rightarrow> string \<Rightarrow> string list" where
  "get_submodules e files module_name =
     (let module_dir = join (CONF_D_DIR e) module_name
      in if \<not> path_exists files module_dir then []
         else sort (map stem (filter (\<lambda>name. name \<noteq> ''conf.yml'') (glob_yml files module_dir))))"

text \<open>
  \<^verbatim>\<open>uniquekey = DEFAULT_UNIQUE_KEY\<close>, replaced by \<^verbatim>\<open>data["uniquekey"]["NumUniqKey"]\<close> under
  \<^verbatim>\<open>if "uniquekey" in data and "NumUniqKey" in data["uniquekey"]\<close>. The value is taken as
  it is, whatever its type. The membership test raises on a document that is \<^verbatim>\<open>None\<close>.
\<close>

definition num_uniq_key_or_default :: "env \<Rightarrow> yaml_doc \<Rightarrow> error + yaml_value" where
  "num_uniq_key_or_default e doc =
     (case doc of
        NullDoc \<Rightarrow> Inl TypeError
      | MapDoc data \<Rightarrow>
          (case uniquekey data of
             NoUniquekey \<Rightarrow> Inr (YInt (DEFAULT_UNIQUE_KEY e))
           | ScalarUniquekey \<Rightarrow> Inl TypeError
           | TextUniquekey \<Rightarrow> Inr (YInt (DEFAULT_UNIQUE_KEY e))
           | UniquekeyMap None _ \<Rightarrow> Inr (YInt (DEFAULT_UNIQUE_KEY e))
           | UniquekeyMap (Some v) _ \<Rightarrow> Inr v))"

text \<open>
  The dictionary \<^verbatim>\<open>get_module_config\<close> returns. \<open>mc_full_config\<close> is \<open>None\<close> for the empty
  dictionary of the \<^verbatim>\<open>except\<close> branch, and \<open>mc_error\<close> is its \<^verbatim>\<open>"error"\<close> entry.
\<close>

record module_config =
  mc_uniquekey :: yaml_value
  mc_period :: yaml_value
  mc_period_seconds :: real
  mc_full_config :: "yaml_doc option"
  mc_error :: "error option"

text \<open>The \<^verbatim>\<open>try\<close> block of \<^verbatim>\<open>get_module_config\<close>.\<close>

definition read_module_settings :: "env \<Rightarrow> fs \<Rightarrow> string \<Rightarrow> error + module_config" where
  "read_module_settings e files module_name =
     (case read_module_config e files module_name of
        Inl err \<Rightarrow> Inl err
      | Inr (doc, _) \<Rightarrow>
          (case num_uniq_key_or_default e doc of
             Inl err \<Rightarrow> Inl err
           | Inr key \<Rightarrow>
               let p = (case doc of
                          MapDoc data \<Rightarrow> (case period data of Some p \<Rightarrow> p
                                          | None \<Rightarrow> YStr (ascii ''1s''))
                        | NullDoc \<Rightarrow> YStr (ascii ''1s''))
               in (case parse_duration_to_seconds e p of
                     Inl err \<Rightarrow> Inl err
                   | Inr seconds \<Rightarrow>
                       Inr \<lparr>mc_uniquekey = key, mc_period = p, mc_period_seconds = seconds,
                            mc_full_config = Some doc, mc_error = None\<rparr>)))"

definition get_module_config :: "env \<Rightarrow> fs \<Rightarrow> string \<Rightarrow> module_config" where
  "get_module_config e files module_name =
     (case read_module_settings e files module_name of
        Inr config \<Rightarrow> config
      | Inl err \<Rightarrow>
          \<lparr>mc_uniquekey = YInt (DEFAULT_UNIQUE_KEY e), mc_period = YStr (ascii ''1s''),
           mc_period_seconds = 1, mc_full_config = None, mc_error = Some err\<rparr>)"

record submodule_config =
  sc_uniquekey :: yaml_value
  sc_full_config :: "yaml_doc option"
  sc_error :: "error option"

definition read_submodule_settings ::
  "env \<Rightarrow> fs \<Rightarrow> string \<Rightarrow> string \<Rightarrow> error + submodule_config" where
  "read_submodule_settings e files module_name submodule_name =
     (case read_submodule_config e files module_name submodule_name of
        Inl err \<Rightarrow> Inl err
      | Inr (doc, _) \<Rightarrow>
          (case num_uniq_key_or_default e doc of
             Inl err \<Rightarrow> Inl err
           | Inr key \<Rightarrow>
               Inr \<lparr>sc_uniquekey = key, sc_full_config = Some doc, sc_error = None\<rparr>))"

definition get_submodule_config :: "env \<Rightarrow> fs \<Rightarrow> string \<Rightarrow> string \<Rightarrow> submodule_config" where
  "get_submodule_config e files module_name submodule_name =
     (case read_submodule_settings e files module_name submodule_name of
        Inr config \<Rightarrow> config
      | Inl err \<Rightarrow>
          \<lparr>sc_uniquekey = YInt (DEFAULT_UNIQUE_KEY e), sc_full_config = None,
           sc_error = Some err\<rparr>)"

subsection \<open>Python arithmetic on the values of a document\<close>

text \<open>
  A Python number is an \<^verbatim>\<open>int\<close> or a \<^verbatim>\<open>float\<close>; a \<^verbatim>\<open>bool\<close> counts as the \<^verbatim>\<open>int\<close> 1 or 0.
  \<^verbatim>\<open>None\<close> and a \<^verbatim>\<open>str\<close> are no numbers: comparing one of them with a number, multiplying
  \<^verbatim>\<open>None\<close> with a number and dividing a \<^verbatim>\<open>str\<close> raise \<^verbatim>\<open>TypeError\<close>.
\<close>

datatype number = IntNum int | FloatNum real

definition num_val :: "number \<Rightarrow> real" where
  "num_val k = (case k of IntNum i \<Rightarrow> real_of_int i | FloatNum x \<Rightarrow> x)"

definition num_add :: "number \<Rightarrow> number \<Rightarrow> number" where
  "num_add a b =
     (case (a, b) of
        (IntNum i, IntNum j) \<Rightarrow> IntNum (i + j)
      | _ \<Rightarrow> FloatNum (num_val a + num_val b))"

definition num_mul :: "number \<Rightarrow> number \<Rightarrow> number" where
  "num_mul a b =
     (case (a, b) of
        (IntNum i, IntNum j) \<Rightarrow> IntNum (i * j)
      | _ \<Rightarrow> FloatNum (num_val a * num_val b))"

definition as_number :: "yaml_value \<Rightarrow> number option" where
  "as_number v =
     (case v of
        YInt n \<Rightarrow> Some (IntNum n)
      | YBool b \<Rightarrow> Some (IntNum (if b then 1 else 0))
      | YFloat x \<Rightarrow> Some (FloatNum x)
      | _ \<Rightarrow> None)"

text \<open>\<^verbatim>\<open>uniquekey < 1\<close>\<close>

definition less_than_one :: "yaml_value \<Rightarrow> error + bool" where
  "less_than_one v =
     (case as_number v of
        None \<Rightarrow> Inl TypeError
      | Some k \<Rightarrow> Inr (num_val k < 1))"

subsection \<open>calculate\_eps\<close>

record submodule_detail =
  sd_name :: string
  sd_uniquekey :: yaml_value
  sd_multiplier :: int
  sd_contribution :: number

text \<open>
  One round of the loop over the submodules in \<^verbatim>\<open>calculate_eps\<close>: the override, the
  comparison \<^verbatim>\<open>uniquekey < 1\<close> (outside every \<^verbatim>\<open>try\<close>, so its \<^verbatim>\<open>TypeError\<close> leaves the
  function), the replacement of a key below 1 by the default, the multiplier 1.
\<close>

definition submodule_contribution ::
  "env \<Rightarrow> fs \<Rightarrow> string \<Rightarrow> (string \<times> int) list option \<Rightarrow> string \<Rightarrow> error + submodule_detail" where
  "submodule_contribution e files module_name submodule_overrides submodule_name =
     (let config = get_submodule_config e files module_name submodule_name;
          config' =
            (case submodule_overrides of
               None \<Rightarrow> config
             | Some overrides \<Rightarrow>
                 (case map_of overrides submodule_name of
                    None \<Rightarrow> config
                  | Some k \<Rightarrow> config\<lparr>sc_uniquekey := YInt k\<rparr>))
      in case less_than_one (sc_uniquekey config') of
           Inl err \<Rightarrow> Inl err
         | Inr below \<Rightarrow>
             let key = (if below then YInt (DEFAULT_UNIQUE_KEY e) else sc_uniquekey config');
                 multiplier = 1
             in (case as_number key of
                   None \<Rightarrow> Inl TypeError
                 | Some k \<Rightarrow>
                     Inr \<lparr>sd_name = submodule_name, sd_uniquekey = key,
                          sd_multiplier = multiplier,
                          sd_contribution = num_mul (IntNum multiplier) k\<rparr>))"

fun contributions_loop ::
  "env \<Rightarrow> fs \<Rightarrow> string \<Rightarrow> (string \<times> int) list option \<Rightarrow> string list
     \<Rightarrow> submodule_detail list \<times> number \<Rightarrow> error + (submodule_detail list \<times> number)" where
  "contributions_loop e files module_name overrides [] acc = Inr acc"
| "contributions_loop e files module_name overrides (s # rest) (details, running_total) =
     (case submodule_contribution e files module_name overrides s of
        Inl err \<Rightarrow> Inl err
      | Inr d \<Rightarrow>
          contributions_loop e files module_name overrides rest
            (details @ [d], num_add running_total (sd_contribution d)))"

record eps_result =
  name_of_module :: string
  module_uniquekey :: yaml_value
  module_period :: yaml_value
  module_period_seconds :: real
  submodules :: "submodule_detail list"
  total_submodule_contribution :: number
  eps :: real

text \<open>
  The three optional arguments of \<^verbatim>\<open>calculate_eps\<close> are \<open>None\<close> when the caller leaves
  them out; an override of the key is an \<^verbatim>\<open>int\<close> and an override of the period a \<^verbatim>\<open>str\<close>.
  \<^verbatim>\<open>module_level_keys * total_submodule_contribution\<close> raises on \<^verbatim>\<open>None\<close>, and on a string
  the quotient raises.
\<close>

definition calculate_eps ::
  "env \<Rightarrow> fs \<Rightarrow> string \<Rightarrow> int option \<Rightarrow> ustring option \<Rightarrow> (string \<times> int) list option
     \<Rightarrow> error + eps_result" where
  "calculate_eps e files name uniquekey_override period_override submodule_overrides =
     (let config = get_module_config e files name;
          config1 = (case uniquekey_override of
                       None \<Rightarrow> config
                     | Some k \<Rightarrow> config\<lparr>mc_uniquekey := YInt k\<rparr>)
      in case (case period_override of
                 None \<Rightarrow> Inr config1
               | Some p \<Rightarrow>
                   (case parse_duration_to_seconds e (YStr p) of
                      Inl err \<Rightarrow> Inl err
                    | Inr seconds \<Rightarrow>
                        Inr (config1\<lparr>mc_period := YStr p, mc_period_seconds := seconds\<rparr>))) of
           Inl err \<Rightarrow> Inl err
         | Inr config2 \<Rightarrow>
             (case contributions_loop e files name submodule_overrides
                     (get_submodules e files name) ([], IntNum 0) of
                Inl err \<Rightarrow> Inl err
              | Inr (details, running_total) \<Rightarrow>
                  let module_level_keys = mc_uniquekey config2;
                      period_seconds = (if mc_period_seconds config2 \<le> 0 then 1
                                        else mc_period_seconds config2)
                  in (case as_number module_level_keys of
                        None \<Rightarrow> Inl TypeError
                      | Some k \<Rightarrow>
                          Inr \<lparr>name_of_module = name,
                               module_uniquekey = module_level_keys,
                               module_period = mc_period config2,
                               module_period_seconds = period_seconds,
                               submodules = details,
                               total_submodule_contribution = running_total,
                               eps = num_val (num_mul k running_total) / period_seconds\<rparr>)))"

subsection \<open>suggest\_uniquekey\_for\_target\_eps\<close>

text \<open>Python's \<^verbatim>\<open>round\<close> on a float: to the nearest integer, a tie to the even one.\<close>

definition py_round :: "real \<Rightarrow> int" where
  "py_round x =
     (let f = \<lfloor>x\<rfloor>; d = x - of_int f
      in if d < 1 / 2 then f
         else if 1 / 2 < d then f + 1
         else if even f then f else f + 1)"

text \<open>The loop over the submodules in \<^verbatim>\<open>suggest_uniquekey_for_target_eps\<close>.\<close>

fun current_contributions ::
  "env \<Rightarrow> fs \<Rightarrow> string \<Rightarrow> string list \<Rightarrow> number \<Rightarrow> error + number" where
  "current_contributions e files name [] running_total = Inr running_total"
| "current_contributions e files name (s # rest) running_total =
     (let config = get_submodule_config e files name s
      in case less_than_one (sc_uniquekey config) of
           Inl err \<Rightarrow> Inl err
         | Inr below \<Rightarrow>
             let key = (if below then YInt (DEFAULT_UNIQUE_KEY e) else sc_uniquekey config);
                 multiplier = 1
             in (case as_number key of
                   None \<Rightarrow> Inl TypeError
                 | Some k \<Rightarrow>
                     current_contributions e files name rest
                       (num_add running_total (num_mul (IntNum multiplier) k))))"

record suggestion =
  sg_target_eps :: real
  suggested_module_uniquekey :: int
  current_module_uniquekey :: yaml_value
  sg_module_period :: yaml_value
  sg_period_seconds :: real
  sg_total_submodule_contribution :: number
  expected_eps :: real
  tolerance_used :: real
  within_tolerance :: bool
  required_module_uniquekey :: real

text \<open>
  \<open>NoValidSubmodules\<close> is the dictionary
  \<^verbatim>\<open>{"error": "No valid submodules found for EPS calculation", "suggestion": None}\<close>.
\<close>

datatype suggestion_result = NoValidSubmodules | Suggested suggestion

text \<open>
  The period is the argument, or the module's own when the argument is left out. Unlike
  \<^verbatim>\<open>calculate_eps\<close>, this function divides by \<^verbatim>\<open>period_seconds\<close> as the parser returns it:
  \<^verbatim>\<open>expected_eps = (suggested_module_uniquekey * total_submodule_contribution) /
  period_seconds\<close> raises \<^verbatim>\<open>ZeroDivisionError\<close> when the period is zero.
\<close>

definition suggest_uniquekey_for_target_eps ::
  "env \<Rightarrow> fs \<Rightarrow> string \<Rightarrow> real \<Rightarrow> ustring option \<Rightarrow> real \<Rightarrow> error + suggestion_result" where
  "suggest_uniquekey_for_target_eps e files name target_eps period_arg tolerance =
     (let config = get_module_config e files name;
          names = get_submodules e files name;
          p = (case period_arg of None \<Rightarrow> mc_period config | Some p \<Rightarrow> YStr p)
      in case parse_duration_to_seconds e p of
           Inl err \<Rightarrow> Inl err
         | Inr period_seconds \<Rightarrow>
             (case current_contributions e files name names (IntNum 0) of
                Inl err \<Rightarrow> Inl err
              | Inr running_total \<Rightarrow>
                  if num_val running_total \<le> 0 then Inr NoValidSubmodules
                  else
                    let required = (target_eps * period_seconds) / num_val running_total;
                        suggested = max 1 (py_round required)
                    in if period_seconds = 0 then Inl ZeroDivisionError
                       else
                         let expected = num_val (num_mul (IntNum suggested) running_total)
                                        / period_seconds;
                             actual_tolerance =
                               (if target_eps > 0 then \<bar>expected - target_eps\<bar> / target_eps
                                else 0)
                         in Inr (Suggested
                              \<lparr>sg_target_eps = target_eps,
                               suggested_module_uniquekey = suggested,
                               current_module_uniquekey = mc_uniquekey config,
                               sg_module_period = p,
                               sg_period_seconds = period_seconds,
                               sg_total_submodule_contribution = running_total,
                               expected_eps = expected,
                               tolerance_used = actual_tolerance,
                               within_tolerance = (actual_tolerance \<le> tolerance),
                               required_module_uniquekey = required\<rparr>)))"

text \<open>
  What the specification says a submodule contributes: its \<^verbatim>\<open>uniquekey.NumUniqKey\<close>, or
  the configured default when the key is missing or below 1.
\<close>

definition stated_contribution :: "env \<Rightarrow> yaml_value \<Rightarrow> int" where
  "stated_contribution e key =
     (case key of
        YInt n \<Rightarrow> if n < 1 then DEFAULT_UNIQUE_KEY e else n
      | _ \<Rightarrow> DEFAULT_UNIQUE_KEY e)"

section \<open>Cluster manager (cluster\_manager.py)\<close>


text \<open>
  One entry of \<^verbatim>\<open>nodes\<close> in the registry. \<open>enabled\<close> is \<open>None\<close> when the key is absent
  (\<^verbatim>\<open>node_config.get('enabled', True)\<close>).
\<close>

record node =
  host :: string
  user :: string
  key_path :: string
  conf_dir :: string
  binary_dir :: string
  description :: string
  enabled :: "bool option"

text \<open>
  The value of \<^verbatim>\<open>yaml.safe_load(content) or {}\<close>: a mapping (the empty one when the loader
  returns a falsy value) or a value that is not a mapping (a non-empty text, a non-empty
  sequence, a number other than zero, \<^verbatim>\<open>True\<close>).
\<close>

datatype loaded = LoadedMap config_data | LoadedOther

text \<open>
  The manager: its registry, its snapshot directory, and the YAML library it calls.
  \<open>safe_load content\<close> is \<open>None\<close> when the loader raises; \<open>safe_dump\<close> is \<^verbatim>\<open>yaml.dump\<close> with
  the arguments the source passes.
\<close>

record manager =
  nodes :: "(string \<times> node) list"
  conf_snapshots_dir :: path
  safe_load :: "string \<Rightarrow> loaded option"
  safe_dump :: "config_data \<Rightarrow> string"

subsection \<open>Submodule discovery\<close>


record submodule_info =
  file_path :: path
  info_module_name :: string
  info_submodule_name :: string
  info_config_data :: loaded
  raw_content :: string
  info_has_unique_key_config :: bool








subsection \<open>Statements about the discovered entries\<close>



subsection \<open>Bulk edit on one node\<close>

text \<open>
  The node's files by their remote path, and the scratch files that exist locally (a
  scratch file is named by a number). The transport says which remote paths cannot be
  fetched or pushed, whether connecting fails, and for which item the scratch file cannot
  be created.
\<close>

record world =
  remote_files :: "string \<Rightarrow> string option"
  scratch :: "nat list"

record transport =
  connect_fails :: bool
  get_fails :: "string \<Rightarrow> bool"
  put_fails :: "string \<Rightarrow> bool"
  mkstemp_fails :: "string \<Rightarrow> bool"

text \<open>\<^verbatim>\<open>tempfile.NamedTemporaryFile\<close> picks a name that is not in use.\<close>

definition fresh_scratch :: "nat list \<Rightarrow> nat" where
  "fresh_scratch names = Suc (foldr max names 0)"

text \<open>
  \<^verbatim>\<open>module_name, submodule_name = submodule_path.split('/', 1)\<close>; \<open>None\<close> is the
  \<^verbatim>\<open>ValueError\<close> of unpacking a single part.
\<close>

definition split_once :: "string \<Rightarrow> (string \<times> string) option" where
  "split_once submodule_path =
     (if CHR ''/'' \<in> set submodule_path
      then Some (takeWhile (\<lambda>c. c \<noteq> CHR ''/'') submodule_path,
                 tl (dropWhile (\<lambda>c. c \<noteq> CHR ''/'') submodule_path))
      else None)"

text \<open>
  The three statements that set the key: a missing \<^verbatim>\<open>uniquekey\<close> and one that is not a
  mapping are replaced by an empty mapping, and then
  \<^verbatim>\<open>config_data['uniquekey']['NumUniqKey'] = new_value\<close>. No statement looks at the value.
\<close>

definition assign_num_uniq_key :: "config_data \<Rightarrow> int \<Rightarrow> config_data" where
  "assign_num_uniq_key data new_value =
     (case uniquekey data of
        UniquekeyMap _ others \<Rightarrow>
          data\<lparr>uniquekey := UniquekeyMap (Some (YInt new_value)) others\<rparr>
      | _ \<Rightarrow> data\<lparr>uniquekey := UniquekeyMap (Some (YInt new_value)) []\<rparr>)"

definition remote_path :: "node \<Rightarrow> string \<Rightarrow> string \<Rightarrow> string" where
  "remote_path node_config module_name submodule_name =
     conf_dir node_config @ ''/'' @ module_name @ ''/'' @ submodule_name @ ''.yml''"

text \<open>
  The inner \<^verbatim>\<open>try\<close> block for one item: fetch, load, set the key, dump, push. Every
  exception in it gives \<open>False\<close>; on a loaded value that is not a mapping the statements
  that set the key raise.
\<close>

definition fetch_edit_push ::
  "manager \<Rightarrow> transport \<Rightarrow> world \<Rightarrow> string \<Rightarrow> int \<Rightarrow> bool \<times> world" where
  "fetch_edit_push mgr tr w remote_file_path new_value =
     (case (if get_fails tr remote_file_path then None
            else remote_files w remote_file_path) of
        None \<Rightarrow> (False, w)
      | Some content \<Rightarrow>
          (case safe_load mgr content of
             None \<Rightarrow> (False, w)
           | Some LoadedOther \<Rightarrow> (False, w)
           | Some (LoadedMap data) \<Rightarrow>
               if put_fails tr remote_file_path then (False, w)
               else (True,
                     w\<lparr>remote_files := (remote_files w)
                         (remote_file_path \<mapsto> safe_dump mgr (assign_num_uniq_key data new_value))\<rparr>)))"

text \<open>
  One round of the loop over the updates. A path without a slash is the \<^verbatim>\<open>ValueError\<close>
  branch. A scratch file that cannot be created is an exception that leaves the loop.
  The \<^verbatim>\<open>finally\<close> branch unlinks the scratch file.
\<close>

definition edit_item ::
  "manager \<Rightarrow> transport \<Rightarrow> node \<Rightarrow> world \<Rightarrow> string \<Rightarrow> int \<Rightarrow> (error + bool) \<times> world" where
  "edit_item mgr tr node_config w submodule_path new_value =
     (case split_once submodule_path of
        None \<Rightarrow> (Inr False, w)
      | Some (m, s) \<Rightarrow>
          if mkstemp_fails tr submodule_path then (Inl (IOFailure MakeScratch), w)
          else
            let temp_path = fresh_scratch (scratch w);
                w1 = w\<lparr>scratch := scratch w @ [temp_path]\<rparr>;
                (ok, w2) = fetch_edit_push mgr tr w1 (remote_path node_config m s) new_value
            in (Inr ok, w2\<lparr>scratch := removeAll temp_path (scratch w2)\<rparr>))"

fun edit_items ::
  "manager \<Rightarrow> transport \<Rightarrow> node \<Rightarrow> (string \<times> int) list \<Rightarrow> (string \<times> bool) list \<Rightarrow> world
     \<Rightarrow> (error + (string \<times> bool) list) \<times> world" where
  "edit_items mgr tr node_config [] results w = (Inr results, w)"
| "edit_items mgr tr node_config ((submodule_path, new_value) # rest) results w =
     (case edit_item mgr tr node_config w submodule_path new_value of
        (Inl err, w') \<Rightarrow> (Inl err, w')
      | (Inr ok, w') \<Rightarrow>
          edit_items mgr tr node_config rest (AList.update submodule_path ok results) w')"

text \<open>
  \<^verbatim>\<open>self.create_node_backup(node_name)\<close>. The class \<^verbatim>\<open>ClusterManager\<close> defines no method of
  this name (its backup method is \<^verbatim>\<open>create_backup(node_name, file_path)\<close>), and nothing
  else in the repository defines one, so the attribute lookup raises.
\<close>

definition create_node_backup :: "manager \<Rightarrow> string \<Rightarrow> error + bool" where
  "create_node_backup mgr node_name = Inl AttributeError"

text \<open>
  \<^verbatim>\<open>_create_ssh_connection\<close>: any failure to connect is raised as
  \<^verbatim>\<open>NodeConnectionError\<close>.
\<close>

definition create_ssh_connection :: "transport \<Rightarrow> error + unit" where
  "create_ssh_connection tr = (if connect_fails tr then Inl NodeConnectionError else Inr ())"

text \<open>\<^verbatim>\<open>{path: False for path in unique_key_updates.keys()}\<close>\<close>

definition all_false :: "(string \<times> int) list \<Rightarrow> (string \<times> bool) list" where
  "all_false unique_key_updates = map (\<lambda>(p, _). (p, False)) unique_key_updates"

text \<open>
  The updates are the items of the dictionary, in its order, and \<open>create_backup_flag\<close> is
  the argument \<^verbatim>\<open>create_backup\<close>. Both \<^verbatim>\<open>except\<close> branches of the outer \<^verbatim>\<open>try\<close> return
  the all-false dictionary.
\<close>

definition bulk_edit_submodule_unique_keys ::
  "manager \<Rightarrow> transport \<Rightarrow> world \<Rightarrow> string \<Rightarrow> (string \<times> int) list \<Rightarrow> bool
     \<Rightarrow> (string \<times> bool) list \<times> world" where
  "bulk_edit_submodule_unique_keys mgr tr w node_name unique_key_updates create_backup_flag =
     (case map_of (nodes mgr) node_name of
        None \<Rightarrow> (all_false unique_key_updates, w)
      | Some node_config \<Rightarrow>
          if \<not> (case enabled node_config of None \<Rightarrow> True | Some b \<Rightarrow> b)
          then (all_false unique_key_updates, w)
          else
            (case (if create_backup_flag then create_node_backup mgr node_name
                   else Inr True) of
               Inl err \<Rightarrow> (all_false unique_key_updates, w)
             | Inr _ \<Rightarrow>
                 (case create_ssh_connection tr of
                    Inl err \<Rightarrow> (all_false unique_key_updates, w)
                  | Inr _ \<Rightarrow>
                      (case edit_items mgr tr node_config unique_key_updates [] w of
                         (Inl err, w') \<Rightarrow> (all_false unique_key_updates, w')
                       | (Inr results, w') \<Rightarrow> (results, w')))))"

section \<open>A small installation for concrete runs\<close>

text \<open>
  A stand-in for the YAML library on a toy syntax: the empty text is the document
  \<^verbatim>\<open>None\<close>, \<^verbatim>\<open>{}\<close> is the empty mapping, \<^verbatim>\<open>~\<close> is a document whose
  \<^verbatim>\<open>uniquekey.NumUniqKey\<close> is null, a run of digits is a document with that
  \<^verbatim>\<open>uniquekey.NumUniqKey\<close>, digits and a period separated by one blank is a document with
  both, and anything else does not parse. The dumper writes a key \<^verbatim>\<open>True\<close> as \<^verbatim>\<open>true\<close>. The
  stand-in for the hash is the identity.
\<close>

definition empty_config :: config_data where
  "empty_config = \<lparr>uniquekey = NoUniquekey, period = None, Include_sub_modules = None,
                    remainder = []\<rparr>"

definition ascii_digit :: "char \<Rightarrow> bool" where
  "ascii_digit c \<longleftrightarrow> c \<in> set ''0123456789''"

definition demo_load :: "string \<Rightarrow> yaml_doc option" where
  "demo_load s =
     (let k = takeWhile ascii_digit s; r = dropWhile ascii_digit s;
          n = int (int_of_digits demo_decimal (ascii k))
      in if s = [] then Some NullDoc
         else if s = ''{}'' then Some (MapDoc empty_config)
         else if s = ''~'' then Some (MapDoc (empty_config\<lparr>uniquekey := UniquekeyMap (Some YNull) []\<rparr>))
         else if k = [] then None
         else if r = []
           then Some (MapDoc (empty_config\<lparr>uniquekey := UniquekeyMap (Some (YInt n)) []\<rparr>))
         else if hd r = CHR '' ''
           then Some (MapDoc (empty_config\<lparr>uniquekey := UniquekeyMap (Some (YInt n)) [],
                                            period := Some (YStr (ascii (tl r)))\<rparr>))
         else None)"

definition demo_char :: "nat \<Rightarrow> char" where
  "demo_char c =
     (case map_of (map (\<lambda>ch. (of_char ch, ch)) ''0123456789mhs '') c of
        Some ch \<Rightarrow> ch
      | None \<Rightarrow> CHR ''?'')"

definition demo_dump :: "config_data \<Rightarrow> string" where
  "demo_dump d =
     (case uniquekey d of
        UniquekeyMap (Some (YInt n)) _ \<Rightarrow> str_int n
      | UniquekeyMap (Some (YBool b)) _ \<Rightarrow> (if b then ''true'' else ''false'')
      | UniquekeyMap (Some YNull) _ \<Rightarrow> ''~''
      | _ \<Rightarrow> [])
     @ (case period d of Some (YStr p) \<Rightarrow> '' '' @ map demo_char p | _ \<Rightarrow> [])"

definition demo_env :: env where
  "demo_env = \<lparr>CONF_D_DIR = [''conf.d''], BACKUPS_DIR = [''backups''],
                MAX_UNIQUE_KEY = 1000000000, DEFAULT_UNIQUE_KEY = 1,
                md5 = (\<lambda>bytes. bytes), yaml_load = demo_load, yaml_dump = demo_dump,
                unicode_decimal = demo_decimal\<rparr>"

text \<open>
  One main configuration, one module \<^verbatim>\<open>m\<close> with key 5, period 1s and the three
  submodules \<^verbatim>\<open>a\<close>, \<^verbatim>\<open>b\<close>, \<^verbatim>\<open>c\<close> with keys 10, 20 and 30, and one module \<^verbatim>\<open>n\<close>
  with the same keys and period 10s. A third module \<^verbatim>\<open>z\<close> has key 3 and period 0s; its
  submodule \<^verbatim>\<open>d\<close> has key 0, \<^verbatim>\<open>e\<close> is an empty file and \<^verbatim>\<open>g\<close> does not parse. A fourth
  module \<^verbatim>\<open>w\<close> has key 5 and period 1s; its submodule \<^verbatim>\<open>a\<close> has key 10 and its submodule
  \<^verbatim>\<open>k\<close> holds \<^verbatim>\<open>NumUniqKey:\<close> with no value.
\<close>

definition demo_files :: fs where
  "demo_files =
     [([''conf.d'', ''conf.yml''], ''7''),
      ([''conf.d'', ''m'', ''conf.yml''], ''5 1s''),
      ([''conf.d'', ''m'', ''b.yml''], ''20''),
      ([''conf.d'', ''m'', ''a.yml''], ''10''),
      ([''conf.d'', ''m'', ''c.yml''], ''30''),
      ([''conf.d'', ''n'', ''conf.yml''], ''5 10s''),
      ([''conf.d'', ''n'', ''a.yml''], ''10''),
      ([''conf.d'', ''n'', ''b.yml''], ''20''),
      ([''conf.d'', ''n'', ''c.yml''], ''30''),
      ([''conf.d'', ''z'', ''conf.yml''], ''3 0s''),
      ([''conf.d'', ''z'', ''d.yml''], ''0''),
      ([''conf.d'', ''z'', ''e.yml''], []),
      ([''conf.d'', ''z'', ''g.yml''], ''??''),
      ([''conf.d'', ''w'', ''conf.yml''], ''5 1s''),
      ([''conf.d'', ''w'', ''a.yml''], ''10''),
      ([''conf.d'', ''w'', ''k.yml''], ''~'')]"

text \<open>
  One enabled node \<^verbatim>\<open>n1\<close> with three submodule files, and a transport on which pushing
  \<^verbatim>\<open>A/y\<close> fails. The loader of the manager reads the empty text as the empty mapping
  (\<^verbatim>\<open>or {}\<close>), \<^verbatim>\<open>*\<close> as a module configuration that includes every submodule, \<^verbatim>\<open>s1 gone\<close>
  as one that lists \<^verbatim>\<open>s1\<close> and \<^verbatim>\<open>gone\<close>, \<^verbatim>\<open>sub/deep\<close> as one that lists \<^verbatim>\<open>sub/deep\<close>, and
  \<^verbatim>\<open>text\<close> as a value that is not a mapping.
\<close>

definition demo_safe_load :: "string \<Rightarrow> loaded option" where
  "demo_safe_load s =
     (if s = ''*'' then Some (LoadedMap (empty_config\<lparr>Include_sub_modules := Some (IncludeString ''*'')\<rparr>))
      else if s = ''s1 gone''
        then Some (LoadedMap (empty_config\<lparr>Include_sub_modules := Some (IncludeList [''s1'', ''gone''])\<rparr>))
      else if s = ''sub/deep''
        then Some (LoadedMap (empty_config\<lparr>Include_sub_modules := Some (IncludeString ''sub/deep'')\<rparr>))
      else if s = ''text'' then Some LoadedOther
      else (case demo_load s of
              None \<Rightarrow> None
            | Some NullDoc \<Rightarrow> Some (LoadedMap empty_config)
            | Some (MapDoc d) \<Rightarrow> Some (LoadedMap d)))"

definition demo_node :: node where
  "demo_node = \<lparr>host = ''10.0.0.1'', user = ''sim'', key_path = ''~/.ssh/id_rsa'',
                 conf_dir = ''/opt/conf.d'', binary_dir = ''/opt/bin'', description = [],
                 enabled = None\<rparr>"

definition demo_manager :: manager where
  "demo_manager = \<lparr>nodes = [(''n1'', demo_node)], conf_snapshots_dir = [''conf_snapshots''],
                    safe_load = demo_safe_load, safe_dump = demo_dump\<rparr>"

definition demo_world :: world where
  "demo_world = \<lparr>remote_files = map_of [(''/opt/conf.d/A/x.yml'', ''1''),
                                             (''/opt/conf.d/A/y.yml'', ''2''),
                                             (''/opt/conf.d/B/s1.yml'', ''3'')],
                  scratch = []\<rparr>"

definition demo_transport :: transport where
  "demo_transport = \<lparr>connect_fails = False, get_fails = (\<lambda>p. False),
                      put_fails = (\<lambda>p. p = ''/opt/conf.d/A/y.yml''),
                      mkstemp_fails = (\<lambda>p. False)\<rparr>"


section \<open>Properties of the duration parser\<close>

lemma is_digit_digit_char: "d < 10 \<Longrightarrow> is_digit nd (of_char (digit_char d))"
proof -
  assume "d < 10"
  then have "d \<in> {0, 1, 2, 3, 4, 5, 6, 7, 8, 9}" by auto
  then show ?thesis
    by (auto simp: is_digit_def decimal_def digit_char_def)
qed

lemma digit_val_digit_char: "d < 10 \<Longrightarrow> digit_val nd (of_char (digit_char d)) = d"
proof -
  assume "d < 10"
  then have "d \<in> {0, 1, 2, 3, 4, 5, 6, 7, 8, 9}" by auto
  then show ?thesis
    by (auto simp: digit_val_def decimal_def digit_char_def)
qed

lemma str_nat_digits: "list_all (is_digit nd) (ascii (str_nat n))"
proof (induction n rule: str_nat.induct)
  case (1 n)
  show ?case
  proof (cases "n < 10")
    case True
    then show ?thesis by (simp add: str_nat.simps [of n] is_digit_digit_char ascii_def)
  next
    case False
    with 1 show ?thesis by (simp add: str_nat.simps [of n] is_digit_digit_char ascii_def)
  qed
qed

lemma str_nat_nonempty: "str_nat n \<noteq> []"
  by (simp add: str_nat.simps [of n])

lemma ascii_append: "ascii (a @ b) = ascii a @ ascii b"
  by (simp add: ascii_def)

lemma int_of_digits_snoc:
  "int_of_digits nd (ds @ [c]) = 10 * int_of_digits nd ds + digit_val nd c"
  by (simp add: int_of_digits_def)

lemma int_of_digits_str_nat: "int_of_digits nd (ascii (str_nat n)) = n"
proof (induction n rule: str_nat.induct)
  case (1 n)
  show ?case
  proof (cases "n < 10")
    case True
    then show ?thesis
      by (simp add: str_nat.simps [of n] int_of_digits_def digit_val_digit_char ascii_def)
  next
    case False
    with 1 have "int_of_digits nd (ascii (str_nat (n div 10))) = n div 10" by simp
    with False show ?thesis
      using int_of_digits_snoc [of nd "ascii (str_nat (n div 10))"
          "of_char (digit_char (n mod 10))"]
      by (simp add: str_nat.simps [of n] digit_val_digit_char ascii_def)
  qed
qed

lemma has_duration_shape_iff:
  "has_duration_shape nd s \<longleftrightarrow> (\<exists>ds u. duration_shape nd s ds u)"
proof
  assume "has_duration_shape nd s"
  then obtain u where u: "u \<in> set duration_units" "length u < length s"
      "drop (length s - length u) s = u" "list_all (is_digit nd) (take (length s - length u) s)"
    by (auto simp: has_duration_shape_def list_ex_iff)
  have "s = take (length s - length u) s @ drop (length s - length u) s" by simp
  with u have "duration_shape nd s (take (length s - length u) s) u"
    unfolding duration_shape_def by auto
  then show "\<exists>ds u. duration_shape nd s ds u" by blast
next
  assume "\<exists>ds u. duration_shape nd s ds u"
  then obtain ds u where d: "s = ds @ u" "ds \<noteq> []" "list_all (is_digit nd) ds"
      "u \<in> set duration_units"
    by (auto simp: duration_shape_def)
  have "length u < length s" "drop (length s - length u) s = u" "take (length s - length u) s = ds"
    using d(1,2) by simp_all
  with d(3,4) show "has_duration_shape nd s"
    unfolding has_duration_shape_def list_ex_iff by metis
qed

lemma duration_units_eq: "duration_units = [[109, 115], [115], [109], [104]]"
  by (simp add: duration_units_def ascii_def)

lemma unit_no_digit:
  "u \<in> set duration_units \<Longrightarrow>
     takeWhile (is_digit nd) u = [] \<and> dropWhile (is_digit nd) u = u \<and> u \<noteq> []
     \<and> last u \<noteq> 0x0A \<and> \<not> is_space (last u)"
  by (auto simp: duration_units_eq is_digit_def decimal_def is_space_def)

lemma match_duration_shape:
  assumes "duration_shape nd t ds u"
  shows "match_duration nd t = Some (ds, u)"
proof -
  from assms have t: "t = ds @ u" and ds: "ds \<noteq> []" "\<forall>c\<in>set ds. is_digit nd c"
    and u: "u \<in> set duration_units"
    by (auto simp: duration_shape_def list_all_iff)
  from ds(2) have "takeWhile (is_digit nd) t = ds @ takeWhile (is_digit nd) u"
    "dropWhile (is_digit nd) t = dropWhile (is_digit nd) u"
    unfolding t by (simp_all add: takeWhile_append2 dropWhile_append2)
  with unit_no_digit [OF u, of nd] ds(1) u show ?thesis
    by (simp add: match_duration_def Let_def)
qed

lemma strip_last: "strip s \<noteq> [] \<Longrightarrow> \<not> is_space (last (strip s))"
proof -
  assume a: "strip s \<noteq> []"
  let ?r = "dropWhile is_space (rev (dropWhile is_space s))"
  from a have ne: "?r \<noteq> []" by (simp add: strip_def)
  then have "\<not> is_space (hd ?r)" by (rule hd_dropWhile)
  moreover have "last (strip s) = hd ?r" using ne by (simp add: strip_def last_rev)
  ultimately show ?thesis by simp
qed

lemma match_duration_Some:
  assumes "match_duration nd t = Some (ds, u)" and "t = [] \<or> \<not> is_space (last t)"
  shows "duration_shape nd t ds u"
proof -
  let ?r = "dropWhile (is_digit nd) t"
  from assms(1) have ds: "ds = takeWhile (is_digit nd) t" "ds \<noteq> []"
    by (auto simp: match_duration_def Let_def split: if_splits)
  have t: "t = ds @ ?r" by (simp add: ds)
  have r: "u = ?r"
  proof (cases "?r \<noteq> [] \<and> last ?r = 0x0A")
    case True
    then have "last t = 0x0A" using t by (metis last_appendR)
    moreover have "t \<noteq> []" using ds by auto
    ultimately have False using assms(2) by (simp add: is_space_def)
    then show ?thesis ..
  next
    case False
    with assms(1) show ?thesis
      by (auto simp: match_duration_def Let_def split: if_splits)
  qed
  from assms(1) have "u \<in> set duration_units"
    by (auto simp: match_duration_def Let_def split: if_splits)
  moreover have "list_all (is_digit nd) ds"
    unfolding ds list_all_iff by (auto dest: set_takeWhileD)
  ultimately show ?thesis using t r ds(2) by (simp add: duration_shape_def)
qed

lemmas duration_simps = parse_duration_def strip_def is_space_def match_duration_def
  is_digit_def decimal_def duration_units_def int_of_digits_def digit_val_def multipliers_def
  ascii_def Let_def

text \<open>
  Claim C5, as amended. Absent and empty input give 1.0. A non-empty input is first
  stripped of surrounding whitespace, in the sense of \<^verbatim>\<open>str.strip()\<close> (every Unicode
  whitespace character, the no-break space among them); when the stripped text is a
  non-empty run of decimal digits, in the sense of \<^verbatim>\<open>\d\<close> and \<^verbatim>\<open>int()\<close> (the ASCII digits
  and every other Unicode decimal digit), followed by one of the units ms, s, m or h, the
  result is the value of the digits times the unit's multiplier, and when it has no such
  shape the parse fails with \<open>InvalidFormat\<close>. So "1s" gives 1.0, "250ms" gives 0.25,
  "2h" gives 7200.0, and "1.5s", "-1s", "1h30m", "15" and a blank text are rejected; a
  text padded with a no-break space parses, and so does one written with the digits of
  another script.
\<close>

theorem parse_duration_stripped_shape:
  "parse_duration nd None = Inr 1
   \<and> parse_duration nd (Some []) = Inr 1
   \<and> (s \<noteq> [] \<and> duration_shape nd (strip s) ds u
        \<longrightarrow> parse_duration nd (Some s) = Inr (real (int_of_digits nd ds) * multipliers u))
   \<and> (s \<noteq> [] \<and> \<not> has_duration_shape nd (strip s)
        \<longrightarrow> parse_duration nd (Some s) = Inl InvalidFormat)
   \<and> parse_duration nd (Some (ascii ''1s'')) = Inr 1
   \<and> parse_duration nd (Some (ascii ''250ms'')) = Inr (1 / 4)
   \<and> parse_duration nd (Some (ascii ''2h'')) = Inr 7200
   \<and> parse_duration nd (Some (ascii ''1.5s'')) = Inl InvalidFormat
   \<and> parse_duration nd (Some (ascii ''-1s'')) = Inl InvalidFormat
   \<and> parse_duration nd (Some (ascii ''1h30m'')) = Inl InvalidFormat
   \<and> parse_duration nd (Some (ascii ''15'')) = Inl InvalidFormat
   \<and> parse_duration nd (Some (ascii '' '')) = Inl InvalidFormat
   \<and> parse_duration nd (Some (0xA0 # ascii ''1s'')) = Inr 1
   \<and> (nd 0x661 = Some 1 \<longrightarrow> parse_duration nd (Some (0x661 # ascii ''s'')) = Inr 1)"
proof -
  have a: "parse_duration nd (Some s) = Inr (real (int_of_digits nd ds) * multipliers u)"
    if "s \<noteq> []" "duration_shape nd (strip s) ds u"
    using that match_duration_shape [OF that(2)] by (simp add: parse_duration_def)
  have b: "parse_duration nd (Some s) = Inl InvalidFormat"
    if "s \<noteq> []" "\<not> has_duration_shape nd (strip s)"
  proof (cases "match_duration nd (strip s)")
    case None
    with that show ?thesis by (simp add: parse_duration_def)
  next
    case (Some p)
    obtain ds' u' where p: "p = (ds', u')" by (cases p)
    have "strip s = [] \<or> \<not> is_space (last (strip s))" using strip_last by blast
    with Some p have "duration_shape nd (strip s) ds' u'" by (simp add: match_duration_Some)
    with that(2) show ?thesis by (auto simp: has_duration_shape_iff)
  qed
  have c: "parse_duration nd (Some (ascii ''1s'')) = Inr 1"
    "parse_duration nd (Some (ascii ''250ms'')) = Inr (1 / 4)"
    "parse_duration nd (Some (ascii ''2h'')) = Inr 7200"
    "parse_duration nd (Some (ascii ''1.5s'')) = Inl InvalidFormat"
    "parse_duration nd (Some (ascii ''-1s'')) = Inl InvalidFormat"
    "parse_duration nd (Some (ascii ''1h30m'')) = Inl InvalidFormat"
    "parse_duration nd (Some (ascii ''15'')) = Inl InvalidFormat"
    "parse_duration nd (Some (ascii '' '')) = Inl InvalidFormat"
    "parse_duration nd (Some (0xA0 # ascii ''1s'')) = Inr 1"
    by (simp_all add: duration_simps)
  have d: "parse_duration nd (Some (0x661 # ascii ''s'')) = Inr 1" if "nd 0x661 = Some 1"
    using that by (simp add: duration_simps)
  show ?thesis using a b c d by (simp add: parse_duration_def)
qed

text \<open>
  The amended claim C5 at the padded input " 30m ", at the input "abc", and at a text in
  Arabic-Indic digits.
\<close>

theorem parse_duration_stripped_shape_witness:
  "ascii '' 30m '' \<noteq> [] \<and> duration_shape demo_decimal (strip (ascii '' 30m '')) (ascii ''30'') (ascii ''m'')
   \<and> parse_duration demo_decimal (Some (ascii '' 30m '')) = Inr 1800
   \<and> ascii ''abc'' \<noteq> [] \<and> \<not> has_duration_shape demo_decimal (strip (ascii ''abc''))
   \<and> parse_duration demo_decimal (Some (ascii ''abc'')) = Inl InvalidFormat
   \<and> demo_decimal 0x661 = Some 1
   \<and> parse_duration demo_decimal (Some (0x661 # ascii ''s'')) = Inr 1"
proof -
  have h1: "duration_shape demo_decimal (strip (ascii '' 30m '')) (ascii ''30'') (ascii ''m'')"
    by (simp add: strip_def is_space_def duration_shape_def is_digit_def decimal_def
        duration_units_def ascii_def)
  have h2: "\<not> has_duration_shape demo_decimal (strip (ascii ''abc''))"
    by (simp add: strip_def is_space_def has_duration_shape_def is_digit_def decimal_def
        duration_units_def ascii_def)
  have h3: "demo_decimal 0x661 = Some 1" by (simp add: demo_decimal_def)
  have v: "real (int_of_digits demo_decimal (ascii ''30'')) * multipliers (ascii ''m'') = 1800"
    by (simp add: int_of_digits_def digit_val_def decimal_def multipliers_def ascii_def)
  have n: "ascii '' 30m '' \<noteq> []" "ascii ''abc'' \<noteq> []" by (simp_all add: ascii_def)
  from parse_duration_stripped_shape
    [of demo_decimal "ascii '' 30m ''" "ascii ''30''" "ascii ''m''"] h1 v n
  have "parse_duration demo_decimal (Some (ascii '' 30m '')) = Inr 1800" by simp
  moreover from parse_duration_stripped_shape [of demo_decimal "ascii ''abc''"] h2 n
  have "parse_duration demo_decimal (Some (ascii ''abc'')) = Inl InvalidFormat" by simp
  moreover from parse_duration_stripped_shape [of demo_decimal] h3
  have "parse_duration demo_decimal (Some (0x661 # ascii ''s'')) = Inr 1" by simp
  ultimately show ?thesis using h1 h2 h3 n by simp
qed

text \<open>
  Claim C5 as stated fails: " 1s" does not have the shape \<open><integer><unit>\<close>, yet it
  parses to 1.0, because the parser strips the text before matching it.
\<close>

theorem parse_duration_padded_counterexample:
  "parse_duration demo_decimal (Some (ascii '' 1s'')) = Inr 1
   \<and> \<not> has_duration_shape demo_decimal (ascii '' 1s'')"
  by (simp add: duration_simps has_duration_shape_def)

lemma strip_id: "t \<noteq> [] \<Longrightarrow> \<not> is_space (hd t) \<Longrightarrow> \<not> is_space (last t) \<Longrightarrow> strip t = t"
proof -
  assume a: "t \<noteq> []" "\<not> is_space (hd t)" "\<not> is_space (last t)"
  then have "dropWhile is_space t = t" by (cases t) auto
  moreover have "dropWhile is_space (rev t) = rev t"
    using a by (cases "rev t") (auto simp: hd_rev)
  ultimately show ?thesis by (simp add: strip_def)
qed

lemma digit_char_not_space: "d < 10 \<Longrightarrow> \<not> is_space (of_char (digit_char d))"
proof -
  assume "d < 10"
  then have "d \<in> {0, 1, 2, 3, 4, 5, 6, 7, 8, 9}" by auto
  then show ?thesis
    by (auto simp: is_space_def digit_char_def)
qed

lemma hd_str_nat_not_space: "\<not> is_space (hd (ascii (str_nat n)))"
proof (induction n rule: str_nat.induct)
  case (1 n)
  show ?case
  proof (cases "n < 10")
    case True
    then show ?thesis by (simp add: str_nat.simps [of n] digit_char_not_space ascii_def)
  next
    case False
    with 1 have "\<not> is_space (hd (ascii (str_nat (n div 10))))" by simp
    moreover have "str_nat (n div 10) \<noteq> []" by (rule str_nat_nonempty)
    ultimately show ?thesis using False
      by (simp add: str_nat.simps [of n] ascii_def hd_append)
  qed
qed

lemma parse_str_nat_unit:
  assumes u: "ascii u \<in> set duration_units"
  shows "parse_duration nd (Some (ascii (str_nat n @ u)))
           = Inr (real n * multipliers (ascii u))"
proof -
  let ?d = "ascii (str_nat n)"
  let ?t = "?d @ ascii u"
  have ne: "?d \<noteq> []" using str_nat_nonempty [of n] by (simp add: ascii_def)
  have dg: "list_all (is_digit nd) ?d" by (rule str_nat_digits)
  have "hd ?t = hd ?d" using ne by simp
  then have h: "\<not> is_space (hd ?t)" by (simp add: hd_str_nat_not_space)
  have "last ?t = last (ascii u)" using unit_no_digit [OF u, of nd] by simp
  then have l: "\<not> is_space (last ?t)" using unit_no_digit [OF u, of nd] by simp
  have "strip ?t = ?t" using h l ne by (simp add: strip_id)
  moreover have "duration_shape nd ?t ?d (ascii u)"
    using ne dg u by (simp add: duration_shape_def)
  ultimately have "match_duration nd (strip ?t) = Some (?d, ascii u)"
    by (simp add: match_duration_shape)
  then show ?thesis using ne by (simp add: parse_duration_def int_of_digits_str_nat ascii_append)
qed

lemma format_duration_nat:
  "format_duration (real x) =
     (if x = 0 then ascii (str_nat 0 @ ''ms'')
      else if x < 60 then ascii (str_nat x @ ''s'')
      else if x < 3600 then ascii (str_nat (x div 60) @ ''m'')
      else ascii (str_nat (x div 3600) @ ''h''))"
proof -
  have f: "\<lfloor>real x / 60\<rfloor> = int (x div 60)" "\<lfloor>real x / 3600\<rfloor> = int (x div 3600)"
    using floor_divide_of_nat_eq [of x 60, where ?'a = real]
      floor_divide_of_nat_eq [of x 3600, where ?'a = real] by simp_all
  show ?thesis
    by (simp add: format_duration_def py_int_def floordiv_def str_int_def f)
qed

text \<open>
  Claim C6. For every non-negative whole number of seconds \<open>x\<close>, parsing the formatted
  text succeeds and gives a value less than one step of the chosen unit away from \<open>x\<close>.
  The unit is ms below one second, s below 60 seconds, m below 3600 seconds and h from
  there on, and the magnitude is a floor, not a rounding: 119 seconds is "1m" and 7199
  seconds is "1h".
\<close>

theorem format_duration_round_trip:
  "(\<exists>v. parse_duration nd (Some (format_duration (real x))) = Inr v
        \<and> \<bar>v - real x\<bar> < multipliers (format_unit (real x)))
   \<and> (0 \<le> s \<and> s < 1 \<longrightarrow> format_duration s = ascii (str_nat (nat \<lfloor>s * 1000\<rfloor>) @ ''ms''))
   \<and> (1 \<le> s \<and> s < 60 \<longrightarrow> format_duration s = ascii (str_nat (nat \<lfloor>s\<rfloor>) @ ''s''))
   \<and> (60 \<le> s \<and> s < 3600 \<longrightarrow> format_duration s = ascii (str_nat (nat \<lfloor>s / 60\<rfloor>) @ ''m''))
   \<and> (3600 \<le> s \<longrightarrow> format_duration s = ascii (str_nat (nat \<lfloor>s / 3600\<rfloor>) @ ''h''))
   \<and> format_duration (1 / 2) = ascii ''500ms''
   \<and> format_duration 59 = ascii ''59s''
   \<and> format_duration 119 = ascii ''1m''
   \<and> format_duration 7199 = ascii ''1h''"
proof -
  have un: "ascii ''ms'' \<in> set duration_units" "ascii ''s'' \<in> set duration_units"
    "ascii ''m'' \<in> set duration_units" "ascii ''h'' \<in> set duration_units"
    by (simp_all add: duration_units_def)
  have mu: "multipliers (ascii ''ms'') = 1 / 1000" "multipliers (ascii ''s'') = 1"
    "multipliers (ascii ''m'') = 60" "multipliers (ascii ''h'') = 3600"
    by (simp_all add: multipliers_def ascii_def)
  have rt: "\<exists>v. parse_duration nd (Some (format_duration (real x))) = Inr v
        \<and> \<bar>v - real x\<bar> < multipliers (format_unit (real x))"
  proof -
    consider "x = 0" | "0 < x" "x < 60" | "60 \<le> x" "x < 3600" | "3600 \<le> x" by linarith
    then show ?thesis
    proof cases
      case 1
      have "format_duration (real x) = ascii (str_nat 0 @ ''ms'')"
        using 1 format_duration_nat [of x] by simp
      moreover have "parse_duration nd (Some (ascii (str_nat 0 @ ''ms''))) = Inr 0"
        using parse_str_nat_unit [OF un(1), of nd 0] by simp
      moreover have "format_unit (real x) = ascii ''ms''" using 1 by (simp add: format_unit_def)
      ultimately show ?thesis using 1 by (simp add: mu)
    next
      case 2
      have "format_duration (real x) = ascii (str_nat x @ ''s'')"
        using 2 format_duration_nat [of x] by simp
      moreover have "parse_duration nd (Some (ascii (str_nat x @ ''s''))) = Inr (real x)"
        using parse_str_nat_unit [OF un(2), of nd x] by (simp add: mu)
      moreover have "format_unit (real x) = ascii ''s''" using 2 by (simp add: format_unit_def)
      ultimately show ?thesis by (simp add: mu)
    next
      case 3
      have "real (x div 60) * 60 = real (x div 60 * 60)" by simp
      also have "x div 60 * 60 = x - x mod 60" by (simp add: minus_mod_eq_div_mult)
      finally have "\<bar>real (x div 60) * 60 - real x\<bar> = real (x mod 60)"
        by (simp add: of_nat_diff)
      moreover have "real (x mod 60) < 60" by simp
      ultimately have d: "\<bar>real (x div 60) * 60 - real x\<bar> < 60" by simp
      have "format_duration (real x) = ascii (str_nat (x div 60) @ ''m'')"
        using 3 format_duration_nat [of x] by simp
      moreover have "parse_duration nd (Some (ascii (str_nat (x div 60) @ ''m'')))
                       = Inr (real (x div 60) * 60)"
        using parse_str_nat_unit [OF un(3), of nd "x div 60"] by (simp add: mu)
      moreover have "format_unit (real x) = ascii ''m''" using 3 by (simp add: format_unit_def)
      ultimately show ?thesis using d by (simp add: mu)
    next
      case 4
      have "real (x div 3600) * 3600 = real (x div 3600 * 3600)" by simp
      also have "x div 3600 * 3600 = x - x mod 3600" by (simp add: minus_mod_eq_div_mult)
      finally have "\<bar>real (x div 3600) * 3600 - real x\<bar> = real (x mod 3600)"
        by (simp add: of_nat_diff)
      moreover have "real (x mod 3600) < 3600" by simp
      ultimately have d: "\<bar>real (x div 3600) * 3600 - real x\<bar> < 3600" by simp
      have "format_duration (real x) = ascii (str_nat (x div 3600) @ ''h'')"
        using 4 format_duration_nat [of x] by simp
      moreover have "parse_duration nd (Some (ascii (str_nat (x div 3600) @ ''h'')))
                       = Inr (real (x div 3600) * 3600)"
        using parse_str_nat_unit [OF un(4), of nd "x div 3600"] by (simp add: mu)
      moreover have "format_unit (real x) = ascii ''h''" using 4 by (simp add: format_unit_def)
      ultimately show ?thesis using d by (simp add: mu)
    qed
  qed
  have br: "0 \<le> s \<and> s < 1 \<longrightarrow> format_duration s = ascii (str_nat (nat \<lfloor>s * 1000\<rfloor>) @ ''ms'')"
    "1 \<le> s \<and> s < 60 \<longrightarrow> format_duration s = ascii (str_nat (nat \<lfloor>s\<rfloor>) @ ''s'')"
    "60 \<le> s \<and> s < 3600 \<longrightarrow> format_duration s = ascii (str_nat (nat \<lfloor>s / 60\<rfloor>) @ ''m'')"
    "3600 \<le> s \<longrightarrow> format_duration s = ascii (str_nat (nat \<lfloor>s / 3600\<rfloor>) @ ''h'')"
    by (auto simp: format_duration_def py_int_def floordiv_def str_int_def)
  have ex: "format_duration (1 / 2) = ascii ''500ms''" "format_duration 59 = ascii ''59s''"
    "format_duration 119 = ascii ''1m''" "format_duration 7199 = ascii ''1h''"
    by (simp_all add: format_duration_def py_int_def floordiv_def str_int_def str_nat.simps
        digit_char_def)
  show ?thesis using rt br ex by simp
qed

text \<open>Claim C6 at 119 seconds, and each branch of the formatter at one input.\<close>

theorem format_duration_round_trip_witness:
  "parse_duration demo_decimal (Some (format_duration (real 119))) = Inr 60
   \<and> \<bar>60 - real 119\<bar> < multipliers (format_unit (real 119))
   \<and> (0::real) \<le> 1 / 4 \<and> (1 / 4 :: real) < 1 \<and> format_duration (1 / 4) = ascii ''250ms''
   \<and> (1::real) \<le> 3 / 2 \<and> (3 / 2 :: real) < 60 \<and> format_duration (3 / 2) = ascii ''1s''
   \<and> (60::real) \<le> 90 \<and> (90 :: real) < 3600 \<and> format_duration 90 = ascii ''1m''
   \<and> (3600::real) \<le> 5400 \<and> format_duration 5400 = ascii ''1h''"
proof -
  from format_duration_round_trip [of demo_decimal 119 0]
  obtain v where v: "parse_duration demo_decimal (Some (format_duration (real 119))) = Inr v"
    "\<bar>v - real 119\<bar> < multipliers (format_unit (real 119))" by blast
  have "format_duration (real 119) = ascii ''1m''"
    by (simp add: format_duration_def py_int_def floordiv_def str_int_def str_nat.simps
        digit_char_def)
  then have "parse_duration demo_decimal (Some (format_duration (real 119))) = Inr 60"
    by (simp add: duration_simps)
  with v have a: "parse_duration demo_decimal (Some (format_duration (real 119))) = Inr 60
     \<and> \<bar>60 - real 119\<bar> < multipliers (format_unit (real 119))" by simp
  have n: "str_nat (nat \<lfloor>(1 / 4 :: real) * 1000\<rfloor>) = ''250''" "str_nat (nat \<lfloor>(3 / 2 :: real)\<rfloor>) = ''1''"
    "str_nat (nat \<lfloor>(90 :: real) / 60\<rfloor>) = ''1''" "str_nat (nat \<lfloor>(5400 :: real) / 3600\<rfloor>) = ''1''"
    by (simp_all add: str_nat.simps digit_char_def)
  from format_duration_round_trip [of demo_decimal 0 "1 / 4"] n
  have b: "format_duration (1 / 4) = ascii ''250ms''" by simp
  from format_duration_round_trip [of demo_decimal 0 "3 / 2"] n
  have c: "format_duration (3 / 2) = ascii ''1s''" by simp
  from format_duration_round_trip [of demo_decimal 0 "90"] n
  have d: "format_duration 90 = ascii ''1m''" by simp
  from format_duration_round_trip [of demo_decimal 0 "5400"] n
  have e: "format_duration 5400 = ascii ''1h''" by simp
  show ?thesis using a b c d e by simp
qed

section \<open>Properties of paths\<close>

lemma split_on_nonempty: "split_on sep s \<noteq> []"
  by (induction s) (auto split: list.splits)

lemma split_on_no_sep: "sep \<notin> set t \<Longrightarrow> split_on sep t = [t]"
  by (induction t) auto

lemma split_on_append:
  "sep \<notin> set t \<Longrightarrow>
     split_on sep (s @ t) = butlast (split_on sep s) @ [last (split_on sep s) @ t]"
proof (induction s)
  case Nil
  then show ?case by (simp add: split_on_no_sep)
next
  case (Cons c s)
  obtain x xs where x: "split_on sep s = x # xs"
    using split_on_nonempty [of sep s] by (cases "split_on sep s") auto
  obtain y ys where y: "split_on sep (s @ t) = y # ys"
    using split_on_nonempty [of sep "s @ t"] by (cases "split_on sep (s @ t)") auto
  from Cons x y show ?case by (cases xs) auto
qed

lemma last_filter_keep: "xs \<noteq> [] \<Longrightarrow> P (last xs) \<Longrightarrow> last (filter P xs) = last xs"
proof (induction xs)
  case Nil
  then show ?case by simp
next
  case (Cons x xs)
  show ?case
  proof (cases "xs = []")
    case True
    with Cons.prems show ?thesis by simp
  next
    case False
    with Cons have l: "last (filter P xs) = last xs" and p: "P (last xs)" by simp_all
    have "last xs \<in> set xs" using False by simp
    with p have "filter P xs \<noteq> []" unfolding filter_empty_conv by blast
    with l False show ?thesis by simp
  qed
qed

lemma join_literal: "join d ''conf.yml'' = d @ [''conf.yml'']" "join d ''conf.d'' = d @ [''conf.d'']"
  by (simp_all add: join_def path_parts_def)

lemma path_parts_yml:
  "\<exists>n. path_parts (s @ ''.yml'') \<noteq> [] \<and> last (path_parts (s @ ''.yml'')) = n @ ''.yml''"
proof -
  let ?xs = "split_on CHR ''/'' (s @ ''.yml'')"
  let ?n = "last (split_on CHR ''/'' s)"
  let ?P = "\<lambda>part. part \<noteq> [] \<and> part \<noteq> ''.''"
  have l: "last ?xs = ?n @ ''.yml''" by (simp add: split_on_append)
  have ne: "?xs \<noteq> []" by (rule split_on_nonempty)
  have P: "?P (last ?xs)" unfolding l by (cases ?n) auto
  have "last ?xs \<in> set ?xs" using ne by simp
  with P have "filter ?P ?xs \<noteq> []" unfolding filter_empty_conv by blast
  moreover have "last (filter ?P ?xs) = last ?xs" using ne P by (rule last_filter_keep)
  ultimately show ?thesis using l by (auto simp: path_parts_def)
qed

lemma last_join_yml: "\<exists>n. last (join d (s @ ''.yml'')) = n @ ''.yml''"
proof -
  from path_parts_yml [of s] obtain n where
    n: "path_parts (s @ ''.yml'') \<noteq> []" "last (path_parts (s @ ''.yml'')) = n @ ''.yml''"
    by blast
  then show ?thesis by (auto simp: join_def)
qed

lemma join_single:
  "name \<noteq> [] \<Longrightarrow> name \<noteq> ''.'' \<Longrightarrow> CHR ''/'' \<notin> set name \<Longrightarrow> join d name = d @ [name]"
  by (cases name) (auto simp: join_def path_parts_def split_on_no_sep)

section \<open>Properties of the checksum-guarded file store\<close>

lemma map_of_unlink_if_exists:
  "map_of (unlink_if_exists files t) = (map_of files)(t := None)"
  by (auto simp: unlink_if_exists_def exists_def AList.delete_conv')

lemma backup_path_differs: "p \<noteq> B @ [last p @ ''.bak.'' @ ts]"
proof
  assume "p = B @ [last p @ ''.bak.'' @ ts]"
  then have "last p = last (B @ [last p @ ''.bak.'' @ ts])" by simp
  then have "length (last p) = length (last p @ ''.bak.'' @ ts)" by simp
  then show False by simp
qed

lemma temp_path_differs: "last p = n @ ''.yml'' \<Longrightarrow> p \<noteq> with_suffix p ''.tmp''"
proof
  assume a: "last p = n @ ''.yml''" and "p = with_suffix p ''.tmp''"
  then have "last p = last (with_suffix p ''.tmp'')" by simp
  then have "last (last p) = last (stem (last p) @ ''.tmp'')" by (simp add: with_suffix_def)
  with a show False by simp
qed

lemma calculate_checksum_error:
  "calculate_checksum e files p = Inl err \<Longrightarrow> err = NotFound"
  by (auto simp: calculate_checksum_def split: option.splits)

lemma write_config_stale:
  "calculate_checksum e files p = Inr c \<Longrightarrow> c \<noteq> cs
   \<Longrightarrow> write_config e os ts files p data cs = (Inl ConcurrentModification, files)"
  by (simp add: write_config_def)

lemma dump_and_replace_failure:
  assumes "dump_and_replace e os files1 t p data = (Inl (IOFailure st), files2)"
    and "st \<in> {OpenTemp, Serialize, Rename}" and "p \<noteq> t"
  shows "map_of files2 p = map_of files1 p"
  using assms
  by (auto simp: dump_and_replace_def Let_def AList.update_conv' calculate_checksum_def
      split: if_splits option.splits sum.splits)

lemma write_config_failure:
  assumes w: "write_config e os ts files p data cs = (Inl (IOFailure st), files')"
    and st: "st \<in> {OpenTemp, Serialize, Rename}"
    and yml: "last p = n @ ''.yml''"
  shows "map_of files' p = map_of files p \<and> map_of files' (with_suffix p ''.tmp'') = None"
proof -
  let ?t = "with_suffix p ''.tmp''"
  from w obtain c where c: "calculate_checksum e files p = Inr c" "c = cs"
    using st by (auto simp: write_config_def split: sum.splits if_splits
        dest: calculate_checksum_error)
  from w c obtain b files1 where b: "create_backup e os ts files p = (Inr b, files1)"
    using st by (auto simp: write_config_def create_backup_def Let_def
        split: sum.splits if_splits prod.splits option.splits)
  from w c b obtain files2 where d: "dump_and_replace e os files1 ?t p data = (Inl (IOFailure st), files2)"
    and f: "files' = unlink_if_exists files2 ?t"
    by (auto simp: write_config_def Let_def split: sum.splits prod.splits)
  have pt: "p \<noteq> ?t" using yml by (rule temp_path_differs)
  from b have "map_of files1 p = map_of files p"
    using backup_path_differs [of p "BACKUPS_DIR e" ts]
    by (auto simp: create_backup_def Let_def AList.update_conv' split: option.splits if_splits)
  moreover have "map_of files2 p = map_of files1 p"
    using d st pt by (rule dump_and_replace_failure)
  ultimately show ?thesis using f pt by (simp add: map_of_unlink_if_exists)
qed

lemmas demo_simps = demo_env_def demo_files_def demo_load_def demo_dump_def empty_config_def
  no_faults_def ascii_digit_def is_digit_def decimal_def int_of_digits_def digit_val_def
  ascii_def demo_char_def

lemmas editor_simps = write_main_config_def write_module_config_def write_submodule_config_def
  write_config_def main_config_path_def module_config_path_def submodule_config_path_def
  calculate_checksum_def create_backup_def dump_and_replace_def unlink_if_exists_def exists_def
  with_suffix_def stem_def suffix_def join_def path_parts_def Let_def

text \<open>
  Claim C1. For each of the three guarded writers: when the checksum of the file on disk
  differs from the one the caller supplies, the write fails with
  \<open>ConcurrentModification\<close> and the file system is exactly as before (no backup, no
  temporary file, the target untouched); and when opening the temporary file, dumping, or
  the rename fails, the target holds the bytes it held before and the temporary file does
  not exist afterwards.
\<close>

theorem guarded_write_stale_or_failed:
  "(calculate_checksum e files (main_config_path e) = Inr c \<and> c \<noteq> cs
      \<longrightarrow> write_main_config e os ts files data cs = (Inl ConcurrentModification, files))
   \<and> (calculate_checksum e files (module_config_path e m) = Inr c \<and> c \<noteq> cs
      \<longrightarrow> write_module_config e os ts files m data cs = (Inl ConcurrentModification, files))
   \<and> (calculate_checksum e files (submodule_config_path e m sm) = Inr c \<and> c \<noteq> cs
      \<longrightarrow> write_submodule_config e os ts files m sm data cs
            = (Inl ConcurrentModification, files))
   \<and> (write_main_config e os ts files data cs = (Inl (IOFailure st), files')
        \<and> st \<in> {OpenTemp, Serialize, Rename}
      \<longrightarrow> map_of files' (main_config_path e) = map_of files (main_config_path e)
          \<and> map_of files' (with_suffix (main_config_path e) ''.tmp'') = None)
   \<and> (write_module_config e os ts files m data cs = (Inl (IOFailure st), files')
        \<and> st \<in> {OpenTemp, Serialize, Rename}
      \<longrightarrow> map_of files' (module_config_path e m) = map_of files (module_config_path e m)
          \<and> map_of files' (with_suffix (module_config_path e m) ''.tmp'') = None)
   \<and> (write_submodule_config e os ts files m sm data cs = (Inl (IOFailure st), files')
        \<and> st \<in> {OpenTemp, Serialize, Rename}
      \<longrightarrow> map_of files' (submodule_config_path e m sm)
            = map_of files (submodule_config_path e m sm)
          \<and> map_of files' (with_suffix (submodule_config_path e m sm) ''.tmp'') = None)"
proof -
  have y1: "last (main_config_path e) = ''conf'' @ ''.yml''"
    by (simp add: main_config_path_def join_literal)
  have y2: "last (module_config_path e m) = ''conf'' @ ''.yml''"
    by (simp add: module_config_path_def join_literal)
  obtain n where y3: "last (submodule_config_path e m sm) = n @ ''.yml''"
    using last_join_yml [of "join (CONF_D_DIR e) m" sm]
    by (auto simp: submodule_config_path_def)
  show ?thesis
    unfolding write_main_config_def write_module_config_def write_submodule_config_def
    using write_config_stale [of e files _ c cs os ts data]
      write_config_failure [OF _ _ y1, of e os ts files data cs st files']
      write_config_failure [OF _ _ y2, of e os ts files data cs st files']
      write_config_failure [OF _ _ y3, of e os ts files data cs st files']
    by blast
qed

text \<open>
  Claim C1 on the small installation: a stale checksum for each writer, and a failing
  rename, a failing dump and a failing open.
\<close>

theorem guarded_write_stale_or_failed_witness:
  "calculate_checksum demo_env demo_files (main_config_path demo_env) = Inr ''7''
   \<and> ''7'' \<noteq> ''old''
   \<and> write_main_config demo_env no_faults ''t'' demo_files empty_config ''old''
       = (Inl ConcurrentModification, demo_files)
   \<and> calculate_checksum demo_env demo_files (module_config_path demo_env ''m'') = Inr ''5 1s''
   \<and> ''5 1s'' \<noteq> ''old''
   \<and> write_module_config demo_env no_faults ''t'' demo_files ''m'' empty_config ''old''
       = (Inl ConcurrentModification, demo_files)
   \<and> calculate_checksum demo_env demo_files (submodule_config_path demo_env ''m'' ''a'')
       = Inr ''10''
   \<and> ''10'' \<noteq> ''old''
   \<and> write_submodule_config demo_env no_faults ''t'' demo_files ''m'' ''a'' empty_config ''old''
       = (Inl ConcurrentModification, demo_files)
   \<and> write_main_config demo_env (no_faults\<lparr>replace_fails := True\<rparr>) ''t'' demo_files
         empty_config ''7''
       = (Inl (IOFailure Rename), demo_files @ [([''backups'', ''conf.yml.bak.t''], ''7'')])
   \<and> map_of (demo_files @ [([''backups'', ''conf.yml.bak.t''], ''7'')])
         (main_config_path demo_env) = Some ''7''
   \<and> map_of (demo_files @ [([''backups'', ''conf.yml.bak.t''], ''7'')])
         (with_suffix (main_config_path demo_env) ''.tmp'') = None
   \<and> write_module_config demo_env (no_faults\<lparr>dump_fails := Some ''x''\<rparr>) ''t'' demo_files
         ''m'' empty_config ''5 1s''
       = (Inl (IOFailure Serialize),
          demo_files @ [([''backups'', ''conf.yml.bak.t''], ''5 1s'')])
   \<and> map_of (demo_files @ [([''backups'', ''conf.yml.bak.t''], ''5 1s'')])
         (module_config_path demo_env ''m'') = Some ''5 1s''
   \<and> map_of (demo_files @ [([''backups'', ''conf.yml.bak.t''], ''5 1s'')])
         (with_suffix (module_config_path demo_env ''m'') ''.tmp'') = None
   \<and> write_submodule_config demo_env (no_faults\<lparr>open_temp_fails := True\<rparr>) ''t''
         demo_files ''m'' ''a'' empty_config ''10''
       = (Inl (IOFailure OpenTemp), demo_files @ [([''backups'', ''a.yml.bak.t''], ''10'')])
   \<and> map_of (demo_files @ [([''backups'', ''a.yml.bak.t''], ''10'')])
         (submodule_config_path demo_env ''m'' ''a'') = Some ''10''
   \<and> map_of (demo_files @ [([''backups'', ''a.yml.bak.t''], ''10'')])
         (with_suffix (submodule_config_path demo_env ''m'' ''a'') ''.tmp'') = None"
proof -
  have c: "calculate_checksum demo_env demo_files (main_config_path demo_env) = Inr ''7''"
    "calculate_checksum demo_env demo_files (module_config_path demo_env ''m'') = Inr ''5 1s''"
    "calculate_checksum demo_env demo_files (submodule_config_path demo_env ''m'' ''a'')
       = Inr ''10''"
    by (simp_all add: demo_simps editor_simps)
  have f: "write_main_config demo_env (no_faults\<lparr>replace_fails := True\<rparr>) ''t'' demo_files
         empty_config ''7''
       = (Inl (IOFailure Rename), demo_files @ [([''backups'', ''conf.yml.bak.t''], ''7'')])"
    "write_module_config demo_env (no_faults\<lparr>dump_fails := Some ''x''\<rparr>) ''t'' demo_files
         ''m'' empty_config ''5 1s''
       = (Inl (IOFailure Serialize),
          demo_files @ [([''backups'', ''conf.yml.bak.t''], ''5 1s'')])"
    "write_submodule_config demo_env (no_faults\<lparr>open_temp_fails := True\<rparr>) ''t''
         demo_files ''m'' ''a'' empty_config ''10''
       = (Inl (IOFailure OpenTemp), demo_files @ [([''backups'', ''a.yml.bak.t''], ''10'')])"
    by (simp_all add: demo_simps editor_simps)
  have o: "map_of demo_files (main_config_path demo_env) = Some ''7''"
    "map_of demo_files (module_config_path demo_env ''m'') = Some ''5 1s''"
    "map_of demo_files (submodule_config_path demo_env ''m'' ''a'') = Some ''10''"
    by (simp_all add: demo_simps editor_simps)
  note t = guarded_write_stale_or_failed [where e = demo_env and files = demo_files
      and ts = "''t''" and data = empty_config and m = "''m''" and sm = "''a''"]
  from t [where c = "''7''" and cs = "''old''" and os = no_faults] c(1)
  have s1: "write_main_config demo_env no_faults ''t'' demo_files empty_config ''old''
       = (Inl ConcurrentModification, demo_files)" by simp
  from t [where c = "''5 1s''" and cs = "''old''" and os = no_faults] c(2)
  have s2: "write_module_config demo_env no_faults ''t'' demo_files ''m'' empty_config ''old''
       = (Inl ConcurrentModification, demo_files)" by simp
  from t [where c = "''10''" and cs = "''old''" and os = no_faults] c(3)
  have s3: "write_submodule_config demo_env no_faults ''t'' demo_files ''m'' ''a'' empty_config
         ''old'' = (Inl ConcurrentModification, demo_files)" by simp
  from t [where cs = "''7''" and os = "no_faults\<lparr>replace_fails := True\<rparr>" and st = Rename
      and files' = "demo_files @ [([''backups'', ''conf.yml.bak.t''], ''7'')]"] f(1) o(1)
  have g1: "map_of (demo_files @ [([''backups'', ''conf.yml.bak.t''], ''7'')])
         (main_config_path demo_env) = Some ''7''
     \<and> map_of (demo_files @ [([''backups'', ''conf.yml.bak.t''], ''7'')])
         (with_suffix (main_config_path demo_env) ''.tmp'') = None" by simp
  from t [where cs = "''5 1s''" and os = "no_faults\<lparr>dump_fails := Some ''x''\<rparr>"
      and st = Serialize
      and files' = "demo_files @ [([''backups'', ''conf.yml.bak.t''], ''5 1s'')]"] f(2) o(2)
  have g2: "map_of (demo_files @ [([''backups'', ''conf.yml.bak.t''], ''5 1s'')])
         (module_config_path demo_env ''m'') = Some ''5 1s''
     \<and> map_of (demo_files @ [([''backups'', ''conf.yml.bak.t''], ''5 1s'')])
         (with_suffix (module_config_path demo_env ''m'') ''.tmp'') = None" by simp
  from t [where cs = "''10''" and os = "no_faults\<lparr>open_temp_fails := True\<rparr>"
      and st = OpenTemp
      and files' = "demo_files @ [([''backups'', ''a.yml.bak.t''], ''10'')]"] f(3) o(3)
  have g3: "map_of (demo_files @ [([''backups'', ''a.yml.bak.t''], ''10'')])
         (submodule_config_path demo_env ''m'' ''a'') = Some ''10''
     \<and> map_of (demo_files @ [([''backups'', ''a.yml.bak.t''], ''10'')])
         (with_suffix (submodule_config_path demo_env ''m'' ''a'') ''.tmp'') = None" by simp
  show ?thesis using c f s1 s2 s3 g1 g2 g3 by simp
qed

section \<open>Properties of the unique-key mutators\<close>

lemma read_config_error:
  "read_config e files p = Inl err \<Longrightarrow> err \<noteq> OutOfRange"
  by (auto simp: read_config_def calculate_checksum_def split: option.splits sum.splits)

lemma write_config_error:
  "write_config e os ts files p data cs = (Inl err, files') \<Longrightarrow> err \<noteq> OutOfRange"
  by (auto simp: write_config_def create_backup_def dump_and_replace_def Let_def
      calculate_checksum_def
      split: option.splits sum.splits if_splits prod.splits)

lemma set_num_uniq_key_error: "set_num_uniq_key doc v = Inl err \<Longrightarrow> err \<noteq> OutOfRange"
  by (auto simp: set_num_uniq_key_def split: yaml_doc.splits uniquekey_value.splits)

text \<open>What both mutators do once the range check has passed.\<close>

lemma read_set_write_not_out_of_range:
  "fst (case read_config e files p of
          Inl err \<Rightarrow> (Inl err, files)
        | Inr (doc, current_checksum) \<Rightarrow>
            if current_checksum \<noteq> cs then (Inl ConcurrentModification, files)
            else (case set_num_uniq_key doc v of
                    Inl err \<Rightarrow> (Inl err, files)
                  | Inr data' \<Rightarrow> write_config e os ts files p data' cs))
   \<noteq> Inl OutOfRange"
proof (cases "read_config e files p")
  case (Inl err)
  then show ?thesis using read_config_error [of e files p err] by simp
next
  case (Inr r)
  obtain doc c where r: "r = (doc, c)" by (cases r)
  show ?thesis
  proof (cases "c = cs")
    case False
    with Inr r show ?thesis by simp
  next
    case True
    show ?thesis
    proof (cases "set_num_uniq_key doc v")
      case (Inl err)
      with Inr r True show ?thesis using set_num_uniq_key_error [of doc v err] by simp
    next
      case (Inr data')
      obtain res files' where w: "write_config e os ts files p data' cs = (res, files')"
        by (cases "write_config e os ts files p data' cs")
      have "res \<noteq> Inl OutOfRange"
        using write_config_error [of e os ts files p data' cs _ files'] w by auto
      with \<open>read_config e files p = Inr r\<close> r True Inr w show ?thesis by simp
    qed
  qed
qed

lemma key_accepted_cases:
  "key_accepted e v \<longleftrightarrow>
     (\<exists>n stored. int_instance v = Some (n, stored) \<and> 1 \<le> n \<and> n \<le> MAX_UNIQUE_KEY e)"
  by (cases v) (auto simp: key_accepted_def int_instance_def)

lemma key_rejected_cases:
  "\<not> key_accepted e v \<Longrightarrow>
     int_instance v = None
     \<or> (\<exists>n stored. int_instance v = Some (n, stored) \<and> (n < 1 \<or> n > MAX_UNIQUE_KEY e))"
  by (cases v) (auto simp: key_accepted_def int_instance_def)

lemma update_module_uniquekey_range:
  "fst (update_module_uniquekey e os ts files m v cs) = Inl OutOfRange \<longleftrightarrow> \<not> key_accepted e v"
proof (cases "key_accepted e v")
  case False
  then show ?thesis
    using key_rejected_cases [of e v]
    by (auto simp: update_module_uniquekey_def)
next
  case True
  then obtain n stored where v: "int_instance v = Some (n, stored)" "1 \<le> n"
      "n \<le> MAX_UNIQUE_KEY e"
    unfolding key_accepted_cases by blast
  then show ?thesis
    using True read_set_write_not_out_of_range [where e = e and files = files
        and p = "module_config_path e m" and cs = cs and v = stored and os = os and ts = ts]
    unfolding update_module_uniquekey_def read_module_config_def write_module_config_def
    by simp
qed

lemma update_submodule_uniquekey_range:
  "fst (update_submodule_uniquekey e os ts files m sm v cs) = Inl OutOfRange
   \<longleftrightarrow> \<not> key_accepted e v"
proof (cases "key_accepted e v")
  case False
  then show ?thesis
    using key_rejected_cases [of e v]
    by (auto simp: update_submodule_uniquekey_def)
next
  case True
  then obtain n stored where v: "int_instance v = Some (n, stored)" "1 \<le> n"
      "n \<le> MAX_UNIQUE_KEY e"
    unfolding key_accepted_cases by blast
  then show ?thesis
    using True
      read_set_write_not_out_of_range [where e = e and files = files
        and p = "submodule_config_path e m sm" and cs = cs and v = stored and os = os
        and ts = ts]
    unfolding update_submodule_uniquekey_def read_submodule_config_def
      write_submodule_config_def
    by simp
qed

lemma out_of_range_untouched:
  "\<not> key_accepted e v \<Longrightarrow>
     update_module_uniquekey e os ts files m v cs = (Inl OutOfRange, files)
     \<and> update_submodule_uniquekey e os ts files m sm v cs = (Inl OutOfRange, files)"
  using key_rejected_cases [of e v]
  by (auto simp: update_module_uniquekey_def update_submodule_uniquekey_def)

lemma write_config_ok:
  assumes c: "calculate_checksum e files p = Inr cs" and yml: "last p = n @ ''.yml''"
  shows "\<exists>files'. write_config e no_faults ts files p data cs
           = (Inr \<lparr>success = True,
                   backup_path = BACKUPS_DIR e @ [last p @ ''.bak.'' @ ts],
                   new_checksum = md5 e (yaml_dump e data)\<rparr>, files')
         \<and> map_of files' p = Some (yaml_dump e data)"
proof -
  from c obtain bytes where b: "map_of files p = Some bytes"
    by (auto simp: calculate_checksum_def split: option.splits)
  have d: "p \<noteq> BACKUPS_DIR e @ [last p @ ''.bak.'' @ ts]" by (rule backup_path_differs)
  show ?thesis
    using c b d
    by (simp add: write_config_def create_backup_def dump_and_replace_def Let_def no_faults_def
        calculate_checksum_def AList.update_conv')
qed

text \<open>What both mutators do with a value that passes the check, when nothing fails.\<close>

lemma update_module_uniquekey_ok:
  assumes "int_instance v = Some (n, stored)" "1 \<le> n" "n \<le> MAX_UNIQUE_KEY e"
    and "read_module_config e files m = Inr (doc, cs)"
    and "set_num_uniq_key doc stored = Inr data'"
  shows "\<exists>r files'. update_module_uniquekey e no_faults ts files m v cs = (Inr r, files')
           \<and> map_of files' (module_config_path e m) = Some (yaml_dump e data')"
proof -
  from assms(4) have c: "calculate_checksum e files (module_config_path e m) = Inr cs"
    by (auto simp: read_module_config_def read_config_def split: option.splits sum.splits)
  have y: "last (module_config_path e m) = ''conf'' @ ''.yml''"
    by (simp add: module_config_path_def join_literal)
  from write_config_ok [OF c y, of ts data'] assms show ?thesis
    by (auto simp: update_module_uniquekey_def write_module_config_def)
qed

lemma update_submodule_uniquekey_ok:
  assumes "int_instance v = Some (n, stored)" "1 \<le> n" "n \<le> MAX_UNIQUE_KEY e"
    and "read_submodule_config e files m sm = Inr (doc, cs)"
    and "set_num_uniq_key doc stored = Inr data'"
  shows "\<exists>r files'. update_submodule_uniquekey e no_faults ts files m sm v cs = (Inr r, files')
           \<and> map_of files' (submodule_config_path e m sm) = Some (yaml_dump e data')"
proof -
  from assms(4) have c: "calculate_checksum e files (submodule_config_path e m sm) = Inr cs"
    by (auto simp: read_submodule_config_def read_config_def split: option.splits sum.splits)
  obtain k where y: "last (submodule_config_path e m sm) = k @ ''.yml''"
    using last_join_yml [of "join (CONF_D_DIR e) m" sm]
    by (auto simp: submodule_config_path_def)
  from write_config_ok [OF c y, of ts data'] assms show ?thesis
    by (auto simp: update_submodule_uniquekey_def write_submodule_config_def)
qed

text \<open>
  Claim C7, as amended. Each of the two unique-key mutators fails with \<open>OutOfRange\<close>
  exactly when the value does not pass the check
  \<^verbatim>\<open>isinstance(v, int) and 1 <= v <= MAX_UNIQUE_KEY\<close>, and then returns the file system
  unchanged, before any read, backup or write. The values that pass are the integers in
  \<open>[1, MAX_UNIQUE_KEY]\<close> and, a boolean being an instance of \<^verbatim>\<open>int\<close>, the value \<^verbatim>\<open>True\<close>;
  \<^verbatim>\<open>False\<close>, floats, strings and \<^verbatim>\<open>None\<close> are refused. 0 and \<open>MAX_UNIQUE_KEY + 1\<close> are
  refused; \<open>MAX_UNIQUE_KEY\<close> itself passes, and so does \<^verbatim>\<open>True\<close>: on a readable document
  whose checksum the caller holds, with no failure of the operating system, the mutator
  succeeds and the file then holds the document with the new key (the integer, or the
  boolean \<^verbatim>\<open>True\<close>).
\<close>

theorem uniquekey_mutators_range_check:
  "(fst (update_module_uniquekey e os ts files m v cs) = Inl OutOfRange
      \<longleftrightarrow> \<not> key_accepted e v)
   \<and> (fst (update_submodule_uniquekey e os ts files m sm v cs) = Inl OutOfRange
      \<longleftrightarrow> \<not> key_accepted e v)
   \<and> (\<not> key_accepted e v
      \<longrightarrow> update_module_uniquekey e os ts files m v cs = (Inl OutOfRange, files)
        \<and> update_submodule_uniquekey e os ts files m sm v cs = (Inl OutOfRange, files))
   \<and> (key_accepted e v \<longleftrightarrow> key_in_range e v \<or> (v = PyBool True \<and> 1 \<le> MAX_UNIQUE_KEY e))
   \<and> \<not> key_accepted e (PyInt 0)
   \<and> \<not> key_accepted e (PyInt (MAX_UNIQUE_KEY e + 1))
   \<and> \<not> key_accepted e (PyBool False)
   \<and> (1 \<le> MAX_UNIQUE_KEY e \<longrightarrow> key_accepted e (PyInt (MAX_UNIQUE_KEY e)))
   \<and> (1 \<le> MAX_UNIQUE_KEY e
        \<and> read_module_config e files m = Inr (doc, cs)
        \<and> set_num_uniq_key doc (YInt (MAX_UNIQUE_KEY e)) = Inr data'
      \<longrightarrow> (\<exists>r files'. update_module_uniquekey e no_faults ts files m
                         (PyInt (MAX_UNIQUE_KEY e)) cs = (Inr r, files')
                     \<and> map_of files' (module_config_path e m) = Some (yaml_dump e data')))
   \<and> (1 \<le> MAX_UNIQUE_KEY e
        \<and> read_submodule_config e files m sm = Inr (doc, cs)
        \<and> set_num_uniq_key doc (YInt (MAX_UNIQUE_KEY e)) = Inr data'
      \<longrightarrow> (\<exists>r files'. update_submodule_uniquekey e no_faults ts files m sm
                         (PyInt (MAX_UNIQUE_KEY e)) cs = (Inr r, files')
                     \<and> map_of files' (submodule_config_path e m sm)
                         = Some (yaml_dump e data')))
   \<and> (1 \<le> MAX_UNIQUE_KEY e
        \<and> read_module_config e files m = Inr (doc, cs)
        \<and> set_num_uniq_key doc (YBool True) = Inr data'
      \<longrightarrow> (\<exists>r files'. update_module_uniquekey e no_faults ts files m (PyBool True) cs
                         = (Inr r, files')
                     \<and> map_of files' (module_config_path e m) = Some (yaml_dump e data')))
   \<and> (1 \<le> MAX_UNIQUE_KEY e
        \<and> read_submodule_config e files m sm = Inr (doc, cs)
        \<and> set_num_uniq_key doc (YBool True) = Inr data'
      \<longrightarrow> (\<exists>r files'. update_submodule_uniquekey e no_faults ts files m sm (PyBool True) cs
                         = (Inr r, files')
                     \<and> map_of files' (submodule_config_path e m sm)
                         = Some (yaml_dump e data')))"
proof -
  have k: "key_accepted e v \<longleftrightarrow> key_in_range e v \<or> (v = PyBool True \<and> 1 \<le> MAX_UNIQUE_KEY e)"
    "\<not> key_accepted e (PyInt 0)" "\<not> key_accepted e (PyInt (MAX_UNIQUE_KEY e + 1))"
    "\<not> key_accepted e (PyBool False)"
    "1 \<le> MAX_UNIQUE_KEY e \<longrightarrow> key_accepted e (PyInt (MAX_UNIQUE_KEY e))"
    by (auto simp: key_accepted_def key_in_range_def split: pyval.splits)
  have i: "int_instance (PyInt (MAX_UNIQUE_KEY e))
             = Some (MAX_UNIQUE_KEY e, YInt (MAX_UNIQUE_KEY e))"
    "int_instance (PyBool True) = Some (1, YBool True)"
    by (simp_all add: int_instance_def)
  have okm: "\<exists>r files'. update_module_uniquekey e no_faults ts files m
                         (PyInt (MAX_UNIQUE_KEY e)) cs = (Inr r, files')
                     \<and> map_of files' (module_config_path e m) = Some (yaml_dump e data')"
    if "1 \<le> MAX_UNIQUE_KEY e" "read_module_config e files m = Inr (doc, cs)"
       "set_num_uniq_key doc (YInt (MAX_UNIQUE_KEY e)) = Inr data'"
    using update_module_uniquekey_ok [OF i(1) that(1) order_refl that(2,3)] .
  have oks: "\<exists>r files'. update_submodule_uniquekey e no_faults ts files m sm
                         (PyInt (MAX_UNIQUE_KEY e)) cs = (Inr r, files')
                     \<and> map_of files' (submodule_config_path e m sm) = Some (yaml_dump e data')"
    if "1 \<le> MAX_UNIQUE_KEY e" "read_submodule_config e files m sm = Inr (doc, cs)"
       "set_num_uniq_key doc (YInt (MAX_UNIQUE_KEY e)) = Inr data'"
    using update_submodule_uniquekey_ok [OF i(1) that(1) order_refl that(2,3)] .
  have bm: "\<exists>r files'. update_module_uniquekey e no_faults ts files m (PyBool True) cs
                         = (Inr r, files')
                     \<and> map_of files' (module_config_path e m) = Some (yaml_dump e data')"
    if "1 \<le> MAX_UNIQUE_KEY e" "read_module_config e files m = Inr (doc, cs)"
       "set_num_uniq_key doc (YBool True) = Inr data'"
    using update_module_uniquekey_ok [OF i(2) order_refl that(1) that(2,3)] .
  have bs: "\<exists>r files'. update_submodule_uniquekey e no_faults ts files m sm (PyBool True) cs
                         = (Inr r, files')
                     \<and> map_of files' (submodule_config_path e m sm) = Some (yaml_dump e data')"
    if "1 \<le> MAX_UNIQUE_KEY e" "read_submodule_config e files m sm = Inr (doc, cs)"
       "set_num_uniq_key doc (YBool True) = Inr data'"
    using update_submodule_uniquekey_ok [OF i(2) order_refl that(1) that(2,3)] .
  have r: "fst (update_module_uniquekey e os ts files m v cs) = Inl OutOfRange
             \<longleftrightarrow> \<not> key_accepted e v"
    "fst (update_submodule_uniquekey e os ts files m sm v cs) = Inl OutOfRange
             \<longleftrightarrow> \<not> key_accepted e v"
    by (rule update_module_uniquekey_range, rule update_submodule_uniquekey_range)
  have u: "\<not> key_accepted e v
      \<longrightarrow> update_module_uniquekey e os ts files m v cs = (Inl OutOfRange, files)
        \<and> update_submodule_uniquekey e os ts files m sm v cs = (Inl OutOfRange, files)"
    using out_of_range_untouched [of e v os ts files m cs sm] by blast
  show ?thesis
    apply (intro conjI)
    using r(1) apply blast
    using r(2) apply blast
    using u apply blast
    using k(1) apply blast
    using k(2) apply blast
    using k(3) apply blast
    using k(4) apply blast
    using k(5) apply blast
    using okm apply blast
    using oks apply blast
    using bm apply blast
    using bs apply blast
    done
qed

text \<open>
  The amended claim C7 on the small installation, where \<open>MAX_UNIQUE_KEY\<close> is
  1000000000: the values 0 and 1000000001 are refused, 1000000000 is written, and
  \<^verbatim>\<open>True\<close> is written to the submodule file.
\<close>

theorem uniquekey_mutators_range_check_witness:
  "\<not> key_accepted demo_env (PyInt 0)
   \<and> update_module_uniquekey demo_env no_faults ''t'' demo_files ''m'' (PyInt 0) ''5 1s''
       = (Inl OutOfRange, demo_files)
   \<and> update_submodule_uniquekey demo_env no_faults ''t'' demo_files ''m'' ''a'' (PyInt 0) ''10''
       = (Inl OutOfRange, demo_files)
   \<and> \<not> key_accepted demo_env (PyInt 1000000001)
   \<and> update_module_uniquekey demo_env no_faults ''t'' demo_files ''m'' (PyInt 1000000001)
         ''5 1s'' = (Inl OutOfRange, demo_files)
   \<and> 1 \<le> MAX_UNIQUE_KEY demo_env
   \<and> read_module_config demo_env demo_files ''m''
       = Inr (MapDoc (empty_config\<lparr>uniquekey := UniquekeyMap (Some (YInt 5)) [],
                                    period := Some (YStr (ascii ''1s''))\<rparr>), ''5 1s'')
   \<and> set_num_uniq_key
         (MapDoc (empty_config\<lparr>uniquekey := UniquekeyMap (Some (YInt 5)) [],
                                period := Some (YStr (ascii ''1s''))\<rparr>))
         (YInt (MAX_UNIQUE_KEY demo_env))
       = Inr (empty_config\<lparr>uniquekey := UniquekeyMap (Some (YInt 1000000000)) [],
                             period := Some (YStr (ascii ''1s''))\<rparr>)
   \<and> map_of (snd (update_module_uniquekey demo_env no_faults ''t'' demo_files ''m''
                     (PyInt (MAX_UNIQUE_KEY demo_env)) ''5 1s''))
         (module_config_path demo_env ''m'') = Some ''1000000000 1s''
   \<and> read_submodule_config demo_env demo_files ''m'' ''a''
       = Inr (MapDoc (empty_config\<lparr>uniquekey := UniquekeyMap (Some (YInt 10)) []\<rparr>), ''10'')
   \<and> set_num_uniq_key (MapDoc (empty_config\<lparr>uniquekey := UniquekeyMap (Some (YInt 10)) []\<rparr>))
         (YBool True)
       = Inr (empty_config\<lparr>uniquekey := UniquekeyMap (Some (YBool True)) []\<rparr>)
   \<and> map_of (snd (update_submodule_uniquekey demo_env no_faults ''t'' demo_files ''m'' ''a''
                     (PyBool True) ''10''))
         (submodule_config_path demo_env ''m'' ''a'') = Some ''true''"
proof -
  let ?dm = "empty_config\<lparr>uniquekey := UniquekeyMap (Some (YInt 5)) [],
                          period := Some (YStr (ascii ''1s''))\<rparr>"
  let ?dm' = "empty_config\<lparr>uniquekey := UniquekeyMap (Some (YInt 1000000000)) [],
                           period := Some (YStr (ascii ''1s''))\<rparr>"
  let ?ds = "empty_config\<lparr>uniquekey := UniquekeyMap (Some (YInt 10)) []\<rparr>"
  let ?ds' = "empty_config\<lparr>uniquekey := UniquekeyMap (Some (YBool True)) []\<rparr>"
  have mx: "MAX_UNIQUE_KEY demo_env = 1000000000" by (simp add: demo_env_def)
  have k: "\<not> key_accepted demo_env (PyInt 0)" "\<not> key_accepted demo_env (PyInt 1000000001)"
    by (simp_all add: key_accepted_def mx)
  have rm: "read_module_config demo_env demo_files ''m'' = Inr (MapDoc ?dm, ''5 1s'')"
    by (simp add: read_module_config_def read_config_def module_config_path_def
        calculate_checksum_def join_def path_parts_def demo_simps Let_def)
  have rs: "read_submodule_config demo_env demo_files ''m'' ''a'' = Inr (MapDoc ?ds, ''10'')"
    by (simp add: read_submodule_config_def read_config_def submodule_config_path_def
        calculate_checksum_def join_def path_parts_def demo_simps Let_def)
  have sm: "set_num_uniq_key (MapDoc ?dm) (YInt (MAX_UNIQUE_KEY demo_env)) = Inr ?dm'"
    "set_num_uniq_key (MapDoc ?ds) (YBool True) = Inr ?ds'"
    by (simp_all add: set_num_uniq_key_def empty_config_def mx)
  have dd: "yaml_dump demo_env ?dm' = ''1000000000 1s''" "yaml_dump demo_env ?ds' = ''true''"
    by (simp_all add: demo_env_def demo_dump_def empty_config_def str_int_def str_nat.simps
        digit_char_def ascii_def demo_char_def)
  note t = uniquekey_mutators_range_check [where e = demo_env and files = demo_files
      and ts = "''t''" and m = "''m''" and sm = "''a''" and os = no_faults]
  from t [where v = "PyInt 0" and cs = "''5 1s''"] k(1)
  have a1: "update_module_uniquekey demo_env no_faults ''t'' demo_files ''m'' (PyInt 0) ''5 1s''
       = (Inl OutOfRange, demo_files)" by blast
  from t [where v = "PyInt 0" and cs = "''10''"] k(1)
  have a2: "update_submodule_uniquekey demo_env no_faults ''t'' demo_files ''m'' ''a'' (PyInt 0)
        ''10'' = (Inl OutOfRange, demo_files)" by blast
  from t [where v = "PyInt 1000000001" and cs = "''5 1s''"] k(2)
  have a3: "update_module_uniquekey demo_env no_faults ''t'' demo_files ''m'' (PyInt 1000000001)
         ''5 1s'' = (Inl OutOfRange, demo_files)" by blast
  from t [where cs = "''5 1s''" and doc = "MapDoc ?dm" and data' = ?dm'] rm sm(1) mx
  have "\<exists>r files'. update_module_uniquekey demo_env no_faults ''t'' demo_files ''m''
                         (PyInt (MAX_UNIQUE_KEY demo_env)) ''5 1s'' = (Inr r, files')
           \<and> map_of files' (module_config_path demo_env ''m'') = Some (yaml_dump demo_env ?dm')"
    by simp
  then have b1: "map_of (snd (update_module_uniquekey demo_env no_faults ''t'' demo_files ''m''
                     (PyInt (MAX_UNIQUE_KEY demo_env)) ''5 1s''))
         (module_config_path demo_env ''m'') = Some ''1000000000 1s''"
    using dd(1) by auto
  from t [where cs = "''10''" and doc = "MapDoc ?ds" and data' = ?ds'] rs sm(2) mx
  have "\<exists>r files'. update_submodule_uniquekey demo_env no_faults ''t'' demo_files ''m'' ''a''
                         (PyBool True) ''10'' = (Inr r, files')
           \<and> map_of files' (submodule_config_path demo_env ''m'' ''a'')
               = Some (yaml_dump demo_env ?ds')"
    by simp
  then have b2: "map_of (snd (update_submodule_uniquekey demo_env no_faults ''t'' demo_files ''m''
                     ''a'' (PyBool True) ''10''))
         (submodule_config_path demo_env ''m'' ''a'') = Some ''true''"
    using dd(2) by auto
  show ?thesis using k mx rm rs sm a1 a2 a3 b1 b2 by simp
qed

text \<open>
  Claim C7 as stated fails: \<^verbatim>\<open>True\<close> is not an integer in \<open>[1, MAX_UNIQUE_KEY]\<close>, yet the
  mutator does not refuse it. It writes the module file with the key \<^verbatim>\<open>true\<close>.
\<close>

theorem uniquekey_mutators_boolean_counterexample:
  "\<not> key_in_range demo_env (PyBool True)
   \<and> update_module_uniquekey demo_env no_faults ''t'' demo_files ''m'' (PyBool True) ''5 1s''
       = (Inr \<lparr>success = True, backup_path = [''backups'', ''conf.yml.bak.t''],
               new_checksum = ''true 1s''\<rparr>,
          AList.update [''conf.d'', ''m'', ''conf.yml''] ''true 1s''
            (demo_files @ [([''backups'', ''conf.yml.bak.t''], ''5 1s'')]))"
  by (simp add: key_in_range_def update_module_uniquekey_def int_instance_def
      read_module_config_def read_config_def set_num_uniq_key_def demo_simps editor_simps)

section \<open>Properties of the EPS calculation\<close>

lemmas eps_simps = calculate_eps_def submodule_contribution_def get_submodule_config_def
  read_submodule_settings_def read_submodule_config_def get_module_config_def
  read_module_settings_def read_module_config_def read_config_def module_config_path_def
  submodule_config_path_def calculate_checksum_def num_uniq_key_or_default_def
  parse_duration_to_seconds_def less_than_one_def as_number_def num_val_def num_add_def
  num_mul_def join_def path_parts_def

lemma demo_get_submodules:
  "get_submodules demo_env demo_files ''m'' = [''a'', ''b'', ''c'']"
  "get_submodules demo_env demo_files ''n'' = [''a'', ''b'', ''c'']"
  "get_submodules demo_env demo_files ''z'' = [''d'', ''e'', ''g'']"
  "get_submodules demo_env demo_files ''w'' = [''a'', ''k'']"
  "get_submodules demo_env demo_files ''x'' = []"
  by (simp_all add: get_submodules_def demo_env_def demo_files_def path_exists_def exists_def
      is_dir_def glob_yml_def iterdir_def matches_yml_def stem_def suffix_def join_def
      path_parts_def Let_def)

lemma demo_module_config:
  "get_module_config demo_env demo_files ''m'' =
     \<lparr>mc_uniquekey = YInt 5, mc_period = YStr (ascii ''1s''), mc_period_seconds = 1,
      mc_full_config = Some (MapDoc (empty_config\<lparr>uniquekey := UniquekeyMap (Some (YInt 5)) [],
                                                    period := Some (YStr (ascii ''1s''))\<rparr>)),
      mc_error = None\<rparr>"
  "get_module_config demo_env demo_files ''n'' =
     \<lparr>mc_uniquekey = YInt 5, mc_period = YStr (ascii ''10s''), mc_period_seconds = 10,
      mc_full_config = Some (MapDoc (empty_config\<lparr>uniquekey := UniquekeyMap (Some (YInt 5)) [],
                                                    period := Some (YStr (ascii ''10s''))\<rparr>)),
      mc_error = None\<rparr>"
  "get_module_config demo_env demo_files ''z'' =
     \<lparr>mc_uniquekey = YInt 3, mc_period = YStr (ascii ''0s''), mc_period_seconds = 0,
      mc_full_config = Some (MapDoc (empty_config\<lparr>uniquekey := UniquekeyMap (Some (YInt 3)) [],
                                                    period := Some (YStr (ascii ''0s''))\<rparr>)),
      mc_error = None\<rparr>"
  "get_module_config demo_env demo_files ''w'' =
     \<lparr>mc_uniquekey = YInt 5, mc_period = YStr (ascii ''1s''), mc_period_seconds = 1,
      mc_full_config = Some (MapDoc (empty_config\<lparr>uniquekey := UniquekeyMap (Some (YInt 5)) [],
                                                    period := Some (YStr (ascii ''1s''))\<rparr>)),
      mc_error = None\<rparr>"
  by (simp_all add: eps_simps duration_simps demo_simps)

lemma demo_submodule_keys:
  "map (\<lambda>s. sc_uniquekey (get_submodule_config demo_env demo_files ''m'' s)) [''a'', ''b'', ''c'']
     = [YInt 10, YInt 20, YInt 30]"
  "map (\<lambda>s. sc_uniquekey (get_submodule_config demo_env demo_files ''n'' s)) [''a'', ''b'', ''c'']
     = [YInt 10, YInt 20, YInt 30]"
  "map (\<lambda>s. sc_uniquekey (get_submodule_config demo_env demo_files ''z'' s)) [''d'', ''e'', ''g'']
     = [YInt 0, YInt 1, YInt 1]"
  "map (\<lambda>s. sc_uniquekey (get_submodule_config demo_env demo_files ''w'' s)) [''a'', ''k'']
     = [YInt 10, YNull]"
  by (simp_all add: eps_simps demo_simps)

lemma demo_contributions:
  "contributions_loop demo_env demo_files ''m'' None [''a'', ''b'', ''c''] ([], IntNum 0)
     = Inr ([\<lparr>sd_name = ''a'', sd_uniquekey = YInt 10, sd_multiplier = 1,
               sd_contribution = IntNum 10\<rparr>,
             \<lparr>sd_name = ''b'', sd_uniquekey = YInt 20, sd_multiplier = 1,
               sd_contribution = IntNum 20\<rparr>,
             \<lparr>sd_name = ''c'', sd_uniquekey = YInt 30, sd_multiplier = 1,
               sd_contribution = IntNum 30\<rparr>], IntNum 60)"
  "contributions_loop demo_env demo_files ''n'' None [''a'', ''b'', ''c''] ([], IntNum 0)
     = Inr ([\<lparr>sd_name = ''a'', sd_uniquekey = YInt 10, sd_multiplier = 1,
               sd_contribution = IntNum 10\<rparr>,
             \<lparr>sd_name = ''b'', sd_uniquekey = YInt 20, sd_multiplier = 1,
               sd_contribution = IntNum 20\<rparr>,
             \<lparr>sd_name = ''c'', sd_uniquekey = YInt 30, sd_multiplier = 1,
               sd_contribution = IntNum 30\<rparr>], IntNum 60)"
  "contributions_loop demo_env demo_files ''z'' None [''d'', ''e'', ''g''] ([], IntNum 0)
     = Inr ([\<lparr>sd_name = ''d'', sd_uniquekey = YInt 1, sd_multiplier = 1,
               sd_contribution = IntNum 1\<rparr>,
             \<lparr>sd_name = ''e'', sd_uniquekey = YInt 1, sd_multiplier = 1,
               sd_contribution = IntNum 1\<rparr>,
             \<lparr>sd_name = ''g'', sd_uniquekey = YInt 1, sd_multiplier = 1,
               sd_contribution = IntNum 1\<rparr>], IntNum 3)"
  "contributions_loop demo_env demo_files ''w'' None [''a'', ''k''] ([], IntNum 0)
     = Inl TypeError"
  using demo_submodule_keys
  by (simp_all add: submodule_contribution_def less_than_one_def as_number_def num_val_def
      num_add_def num_mul_def Let_def demo_env_def)

text \<open>
  On keys that are integers the loop adds up, for every enumerated submodule, its key or
  the default when the key is below 1, and \<open>calculate_eps\<close> returns the formula of the
  claim.
\<close>

lemma submodule_contribution_int:
  assumes "sc_uniquekey (get_submodule_config e files name s) = YInt n"
  shows "submodule_contribution e files name None s
           = Inr \<lparr>sd_name = s, sd_uniquekey = YInt (stated_contribution e (YInt n)),
                  sd_multiplier = 1,
                  sd_contribution = IntNum (stated_contribution e (YInt n))\<rparr>"
  using assms
  by (simp add: submodule_contribution_def less_than_one_def as_number_def num_val_def
      num_mul_def stated_contribution_def Let_def)

lemma contributions_loop_int:
  assumes "\<forall>s \<in> set ss. \<exists>n. sc_uniquekey (get_submodule_config e files name s) = YInt n"
  shows "\<exists>ds'. contributions_loop e files name None ss (ds, IntNum t)
           = Inr (ds',
                  IntNum (t + sum_list (map (\<lambda>s. stated_contribution e
                            (sc_uniquekey (get_submodule_config e files name s))) ss)))
         \<and> map sd_name ds' = map sd_name ds @ ss
         \<and> map sd_multiplier ds' = map sd_multiplier ds @ map (\<lambda>s. 1) ss"
  using assms
proof (induction ss arbitrary: ds t)
  case Nil
  then show ?case by simp
next
  case (Cons s ss)
  from Cons.prems obtain n where n: "sc_uniquekey (get_submodule_config e files name s) = YInt n"
    by auto
  let ?d = "\<lparr>sd_name = s, sd_uniquekey = YInt (stated_contribution e (YInt n)),
             sd_multiplier = 1, sd_contribution = IntNum (stated_contribution e (YInt n))\<rparr>"
  from Cons.prems have r: "\<forall>s \<in> set ss. \<exists>n. sc_uniquekey (get_submodule_config e files name s) = YInt n"
    by simp
  from Cons.IH [OF r, of "ds @ [?d]" "t + stated_contribution e (YInt n)"]
  obtain ds' where
    "contributions_loop e files name None ss (ds @ [?d], IntNum (t + stated_contribution e (YInt n)))
       = Inr (ds', IntNum (t + stated_contribution e (YInt n)
                + sum_list (map (\<lambda>s. stated_contribution e
                            (sc_uniquekey (get_submodule_config e files name s))) ss)))"
    "map sd_name ds' = map sd_name (ds @ [?d]) @ ss"
    "map sd_multiplier ds' = map sd_multiplier (ds @ [?d]) @ map (\<lambda>s. 1) ss"
    by blast
  then show ?case
    using submodule_contribution_int [OF n] n
    by (intro exI [of _ ds']) (simp add: num_add_def add.assoc)
qed

lemma calculate_eps_on_integer_keys:
  assumes k: "mc_uniquekey (get_module_config e files name) = YInt k"
    and s: "\<forall>s \<in> set (get_submodules e files name).
              \<exists>n. sc_uniquekey (get_submodule_config e files name s) = YInt n"
  shows "\<exists>r. calculate_eps e files name None None None = Inr r
           \<and> module_uniquekey r = YInt k
           \<and> map sd_name (submodules r) = get_submodules e files name
           \<and> map sd_multiplier (submodules r) = map (\<lambda>s. 1) (get_submodules e files name)
           \<and> total_submodule_contribution r
               = IntNum (sum_list (map (\<lambda>s. stated_contribution e
                           (sc_uniquekey (get_submodule_config e files name s)))
                         (get_submodules e files name)))
           \<and> module_period_seconds r
               = (if mc_period_seconds (get_module_config e files name) \<le> 0 then 1
                  else mc_period_seconds (get_module_config e files name))
           \<and> eps r = (real_of_int k
                       * real_of_int (sum_list (map (\<lambda>s. stated_contribution e
                           (sc_uniquekey (get_submodule_config e files name s)))
                         (get_submodules e files name))))
                      / module_period_seconds r"
proof -
  from contributions_loop_int [OF s, of "[]" 0]
  obtain ds' where
    "contributions_loop e files name None (get_submodules e files name) ([], IntNum 0)
       = Inr (ds', IntNum (sum_list (map (\<lambda>s. stated_contribution e
                              (sc_uniquekey (get_submodule_config e files name s)))
                            (get_submodules e files name))))"
    "map sd_name ds' = get_submodules e files name"
    "map sd_multiplier ds' = map (\<lambda>s. 1) (get_submodules e files name)"
    by auto
  then show ?thesis
    using k
    by (simp add: calculate_eps_def as_number_def num_mul_def num_val_def Let_def
        del: contributions_loop.simps)
qed

text \<open>
  Claim C2, where the code departs from it. The module \<^verbatim>\<open>w\<close> has the key 5, the period
  1s, a submodule \<^verbatim>\<open>a\<close> with the key 10 and a submodule \<^verbatim>\<open>k\<close> whose file holds
  \<^verbatim>\<open>NumUniqKey:\<close> with no value. The getter hands that null on as the key, the comparison
  \<^verbatim>\<open>uniquekey < 1\<close> raises, and \<open>calculate_eps\<close> fails with \<open>TypeError\<close> where the claim has
  the default take the place of the key and 5 * (10 + 1) / 1 = 55 come out. On keys that
  are integers the function does what the claim says: module key 5 with the submodule
  keys 10, 20 and 30 gives 300 for the period 1s and 30 for the period 10s, and the
  module \<^verbatim>\<open>z\<close> with key 3, period 0s, one submodule key 0 and two unreadable submodule
  files gives 3 * (1 + 1 + 1) / 1 = 9.
\<close>

theorem calculate_eps_null_key_raises:
  "sc_uniquekey (get_submodule_config demo_env demo_files ''w'' ''k'') = YNull
   \<and> calculate_eps demo_env demo_files ''w'' None None None = Inl TypeError
   \<and> (case calculate_eps demo_env demo_files ''m'' None None None of
         Inr r \<Rightarrow> module_uniquekey r = YInt 5
                  \<and> map sd_contribution (submodules r) = [IntNum 10, IntNum 20, IntNum 30]
                  \<and> total_submodule_contribution r = IntNum 60
                  \<and> module_period_seconds r = 1 \<and> eps r = 300
       | Inl err \<Rightarrow> False)
   \<and> (case calculate_eps demo_env demo_files ''n'' None None None of
         Inr r \<Rightarrow> module_uniquekey r = YInt 5
                  \<and> map sd_contribution (submodules r) = [IntNum 10, IntNum 20, IntNum 30]
                  \<and> total_submodule_contribution r = IntNum 60
                  \<and> module_period_seconds r = 10 \<and> eps r = 30
       | Inl err \<Rightarrow> False)
   \<and> (case calculate_eps demo_env demo_files ''z'' None None None of
         Inr r \<Rightarrow> module_uniquekey r = YInt 3
                  \<and> map sd_contribution (submodules r) = [IntNum 1, IntNum 1, IntNum 1]
                  \<and> total_submodule_contribution r = IntNum 3
                  \<and> module_period_seconds r = 1 \<and> eps r = 9
       | Inl err \<Rightarrow> False)"
proof -
  have k: "sc_uniquekey (get_submodule_config demo_env demo_files ''w'' ''k'') = YNull"
    using demo_submodule_keys(4) by simp
  have w: "calculate_eps demo_env demo_files ''w'' None None None = Inl TypeError"
    by (simp add: calculate_eps_def demo_get_submodules demo_contributions Let_def
        del: contributions_loop.simps)
  have m: "case calculate_eps demo_env demo_files ''m'' None None None of
         Inr r \<Rightarrow> module_uniquekey r = YInt 5
                  \<and> map sd_contribution (submodules r) = [IntNum 10, IntNum 20, IntNum 30]
                  \<and> total_submodule_contribution r = IntNum 60
                  \<and> module_period_seconds r = 1 \<and> eps r = 300
       | Inl err \<Rightarrow> False"
    by (simp add: calculate_eps_def demo_get_submodules demo_contributions demo_module_config
        as_number_def num_mul_def num_val_def Let_def del: contributions_loop.simps)
  have n: "case calculate_eps demo_env demo_files ''n'' None None None of
         Inr r \<Rightarrow> module_uniquekey r = YInt 5
                  \<and> map sd_contribution (submodules r) = [IntNum 10, IntNum 20, IntNum 30]
                  \<and> total_submodule_contribution r = IntNum 60
                  \<and> module_period_seconds r = 10 \<and> eps r = 30
       | Inl err \<Rightarrow> False"
    by (simp add: calculate_eps_def demo_get_submodules demo_contributions demo_module_config
        as_number_def num_mul_def num_val_def Let_def del: contributions_loop.simps)
  have z: "case calculate_eps demo_env demo_files ''z'' None None None of
         Inr r \<Rightarrow> module_uniquekey r = YInt 3
                  \<and> map sd_contribution (submodules r) = [IntNum 1, IntNum 1, IntNum 1]
                  \<and> total_submodule_contribution r = IntNum 3
                  \<and> module_period_seconds r = 1 \<and> eps r = 9
       | Inl err \<Rightarrow> False"
    by (simp add: calculate_eps_def demo_get_submodules demo_contributions demo_module_config
        as_number_def num_mul_def num_val_def Let_def del: contributions_loop.simps)
  show ?thesis using k w m n z by simp
qed

section \<open>Properties of the suggestion\<close>

lemma py_round_whole: "py_round (of_int i) = i"
  by (simp add: py_round_def)

lemma demo_current_contributions:
  "current_contributions demo_env demo_files ''m'' [''a'', ''b'', ''c''] (IntNum 0)
     = Inr (IntNum 60)"
  "current_contributions demo_env demo_files ''z'' [''d'', ''e'', ''g''] (IntNum 0)
     = Inr (IntNum 3)"
  using demo_submodule_keys
  by (simp_all add: less_than_one_def as_number_def num_val_def num_add_def num_mul_def
      Let_def demo_env_def)

lemma demo_period_seconds:
  "parse_duration_to_seconds demo_env (YStr (ascii ''0s'')) = Inr 0"
  "parse_duration_to_seconds demo_env (YStr (ascii ''1s'')) = Inr 1"
  by (simp_all add: parse_duration_to_seconds_def duration_simps demo_env_def)

lemma current_contributions_int:
  assumes "\<forall>s \<in> set ss. \<exists>n. sc_uniquekey (get_submodule_config e files name s) = YInt n"
  shows "current_contributions e files name ss (IntNum t)
           = Inr (IntNum (t + sum_list (map (\<lambda>s. stated_contribution e
                            (sc_uniquekey (get_submodule_config e files name s))) ss)))"
  using assms
proof (induction ss arbitrary: t)
  case Nil
  then show ?case by simp
next
  case (Cons s ss)
  from Cons.prems obtain n where n: "sc_uniquekey (get_submodule_config e files name s) = YInt n"
    by auto
  from Cons.prems have r: "\<forall>s \<in> set ss. \<exists>n. sc_uniquekey (get_submodule_config e files name s) = YInt n"
    by simp
  show ?case
    using Cons.IH [OF r, of "t + stated_contribution e (YInt n)"] n
    by (cases "n < 1")
      (simp_all add: less_than_one_def as_number_def num_val_def num_add_def num_mul_def
        stated_contribution_def Let_def add.assoc)
qed

text \<open>
  What the suggestion is, given the period in seconds and the total contribution of the
  submodules: no suggestion for a total of 0 or less, the exception for a period of zero,
  and otherwise the rounded quotient, floored at 1, with the expected EPS and the
  tolerance computed from it.
\<close>

lemma suggest_uniquekey_cases:
  assumes p: "parse_duration_to_seconds e
                (case period_arg of None \<Rightarrow> mc_period (get_module_config e files name)
                 | Some p \<Rightarrow> YStr p) = Inr ps"
    and t: "current_contributions e files name (get_submodules e files name) (IntNum 0)
              = Inr (IntNum t)"
  shows "t \<le> 0 \<Longrightarrow>
           suggest_uniquekey_for_target_eps e files name target period_arg tol
             = Inr NoValidSubmodules"
    and "0 < t \<Longrightarrow> ps = 0 \<Longrightarrow>
           suggest_uniquekey_for_target_eps e files name target period_arg tol
             = Inl ZeroDivisionError"
    and "0 < t \<Longrightarrow> ps \<noteq> 0 \<Longrightarrow>
           \<exists>g. suggest_uniquekey_for_target_eps e files name target period_arg tol
                  = Inr (Suggested g)
              \<and> required_module_uniquekey g = (target * ps) / real_of_int t
              \<and> suggested_module_uniquekey g = max 1 (py_round (required_module_uniquekey g))
              \<and> expected_eps g
                  = (real_of_int (suggested_module_uniquekey g) * real_of_int t) / ps
              \<and> tolerance_used g
                  = (if target > 0 then \<bar>expected_eps g - target\<bar> / target else 0)
              \<and> within_tolerance g = (tolerance_used g \<le> tol)"
  using p t
  by (simp_all add: suggest_uniquekey_for_target_eps_def num_val_def num_mul_def Let_def
      del: current_contributions.simps)

text \<open>
  Claim C4, where the code departs from it. For the target 300, the period 1s and the
  submodule sum 60 the suggestion is the key 5, within tolerance, as the claim says. For
  a period of zero seconds \<open>calculate_eps\<close> replaces the period by 1.0 before it divides
  (the module \<^verbatim>\<open>m\<close> with the period override "0s" gives 300), but
  \<open>suggest_uniquekey_for_target_eps\<close> has no such guard: with the period "0s", given as
  argument or read from the module's own configuration (module \<^verbatim>\<open>z\<close>), the division
  that recomputes the expected EPS raises \<open>ZeroDivisionError\<close>, where the claim has the
  function recompute the expected EPS and report the tolerance.
\<close>

theorem suggest_uniquekey_zero_period_raises:
  "suggest_uniquekey_for_target_eps demo_env demo_files ''m'' 300 (Some (ascii ''0s'')) (5 / 100)
     = Inl ZeroDivisionError
   \<and> suggest_uniquekey_for_target_eps demo_env demo_files ''z'' 300 None (5 / 100)
     = Inl ZeroDivisionError
   \<and> (case calculate_eps demo_env demo_files ''m'' None (Some (ascii ''0s'')) None of
         Inr r \<Rightarrow> module_period_seconds r = 1 \<and> eps r = 300
       | Inl err \<Rightarrow> False)
   \<and> (case suggest_uniquekey_for_target_eps demo_env demo_files ''m'' 300
               (Some (ascii ''1s'')) (5 / 100) of
         Inr (Suggested g) \<Rightarrow>
           required_module_uniquekey g = 5 \<and> suggested_module_uniquekey g = 5
           \<and> sg_total_submodule_contribution g = IntNum 60
           \<and> expected_eps g = 300 \<and> tolerance_used g = 0 \<and> within_tolerance g
       | Inr NoValidSubmodules \<Rightarrow> False
       | Inl err \<Rightarrow> False)"
proof -
  have r5: "py_round 5 = 5" using py_round_whole [of 5] by simp
  have r0: "py_round 0 = 0" using py_round_whole [of 0] by simp
  have a: "suggest_uniquekey_for_target_eps demo_env demo_files ''m'' 300
             (Some (ascii ''0s'')) (5 / 100) = Inl ZeroDivisionError"
    by (simp add: suggest_uniquekey_for_target_eps_def demo_get_submodules
        demo_current_contributions demo_period_seconds num_val_def Let_def
        del: current_contributions.simps)
  have b: "suggest_uniquekey_for_target_eps demo_env demo_files ''z'' 300 None (5 / 100)
             = Inl ZeroDivisionError"
    by (simp add: suggest_uniquekey_for_target_eps_def demo_get_submodules
        demo_current_contributions demo_period_seconds demo_module_config num_val_def Let_def
        del: current_contributions.simps)
  have c: "case calculate_eps demo_env demo_files ''m'' None (Some (ascii ''0s'')) None of
         Inr r \<Rightarrow> module_period_seconds r = 1 \<and> eps r = 300
       | Inl err \<Rightarrow> False"
    by (simp add: calculate_eps_def demo_get_submodules demo_contributions demo_module_config
        demo_period_seconds as_number_def num_mul_def num_val_def Let_def
        del: contributions_loop.simps)
  have d: "case suggest_uniquekey_for_target_eps demo_env demo_files ''m'' 300
               (Some (ascii ''1s'')) (5 / 100) of
         Inr (Suggested g) \<Rightarrow>
           required_module_uniquekey g = 5 \<and> suggested_module_uniquekey g = 5
           \<and> sg_total_submodule_contribution g = IntNum 60
           \<and> expected_eps g = 300 \<and> tolerance_used g = 0 \<and> within_tolerance g
       | Inr NoValidSubmodules \<Rightarrow> False
       | Inl err \<Rightarrow> False"
    by (simp add: suggest_uniquekey_for_target_eps_def demo_get_submodules
        demo_current_contributions demo_period_seconds num_val_def num_mul_def r5 Let_def
        del: current_contributions.simps)
  show ?thesis using a b c d by simp
qed

section \<open>Where read failures go\<close>




section \<open>Properties of the bulk edit\<close>

lemma foldr_max_ge: "x \<in> set xs \<Longrightarrow> x \<le> foldr max xs (0::nat)"
  by (induction xs) auto

lemma fresh_scratch_notin: "fresh_scratch xs \<notin> set xs"
proof
  assume "fresh_scratch xs \<in> set xs"
  then have "fresh_scratch xs \<le> foldr max xs 0" by (rule foldr_max_ge)
  then show False by (simp add: fresh_scratch_def)
qed

lemma fetch_edit_push_scratch:
  "fetch_edit_push mgr tr w rp v = (ok, w') \<Longrightarrow> scratch w' = scratch w"
  by (auto simp: fetch_edit_push_def split: option.splits loaded.splits if_splits)

lemma edit_item_scratch:
  assumes "edit_item mgr tr nc w p v = (r, w')"
  shows "scratch w' = scratch w"
proof (cases "split_once p")
  case None
  with assms show ?thesis by (simp add: edit_item_def)
next
  case (Some ms)
  obtain m s where ms: "ms = (m, s)" by (cases ms)
  show ?thesis
  proof (cases "mkstemp_fails tr p")
    case True
    with assms Some ms show ?thesis by (simp add: edit_item_def)
  next
    case False
    let ?t = "fresh_scratch (scratch w)"
    let ?w1 = "w\<lparr>scratch := scratch w @ [?t]\<rparr>"
    obtain ok w2 where f: "fetch_edit_push mgr tr ?w1 (remote_path nc m s) v = (ok, w2)"
      by (cases "fetch_edit_push mgr tr ?w1 (remote_path nc m s) v")
    then have "scratch w2 = scratch w @ [?t]"
      using fetch_edit_push_scratch [OF f] by simp
    moreover have "w' = w2\<lparr>scratch := removeAll ?t (scratch w2)\<rparr>"
      using assms Some ms False f by (simp add: edit_item_def Let_def)
    ultimately show ?thesis using fresh_scratch_notin [of "scratch w"] by simp
  qed
qed

lemma edit_items_scratch:
  "edit_items mgr tr nc us results w = (r, w') \<Longrightarrow> scratch w' = scratch w"
proof (induction us arbitrary: results w)
  case Nil
  then show ?case by simp
next
  case (Cons u us)
  obtain p v where u: "u = (p, v)" by (cases u)
  obtain r1 w1 where e: "edit_item mgr tr nc w p v = (r1, w1)"
    by (cases "edit_item mgr tr nc w p v")
  have s1: "scratch w1 = scratch w" using e by (rule edit_item_scratch)
  show ?case
  proof (cases r1)
    case (Inl err)
    with Cons.prems u e s1 show ?thesis by simp
  next
    case (Inr ok)
    with Cons.prems u e have "edit_items mgr tr nc us (AList.update p ok results) w1 = (r, w')"
      by simp
    then have "scratch w' = scratch w1" by (rule Cons.IH)
    with s1 show ?thesis by simp
  qed
qed

lemma split_once_join:
  "split_once p = Some (m, s) \<Longrightarrow> m @ ''/'' @ s = p"
proof -
  assume a: "split_once p = Some (m, s)"
  let ?P = "\<lambda>c. c \<noteq> CHR ''/''"
  from a have in_p: "CHR ''/'' \<in> set p" and m: "m = takeWhile ?P p" and s: "s = tl (dropWhile ?P p)"
    by (auto simp: split_once_def split: if_splits)
  from in_p have ne: "dropWhile ?P p \<noteq> []" by (simp add: dropWhile_eq_Nil_conv)
  then have "hd (dropWhile ?P p) = CHR ''/''" using hd_dropWhile [of ?P p] by simp
  with ne have "dropWhile ?P p = CHR ''/'' # s" unfolding s by (cases "dropWhile ?P p") auto
  then have "m @ ''/'' @ s = takeWhile ?P p @ dropWhile ?P p" by (simp add: m)
  then show ?thesis by simp
qed

lemma remote_path_of_key:
  "split_once p = Some (m, s) \<Longrightarrow> remote_path nc m s = conf_dir nc @ ''/'' @ p @ ''.yml''"
  using split_once_join [of p m s] by (simp add: remote_path_def)

lemma remote_path_inj:
  assumes "split_once p = Some (m, s)" "split_once q = Some (m', s')"
    and "remote_path nc m s = remote_path nc m' s'"
  shows "p = q"
  using assms by (simp add: remote_path_of_key)


lemma fetch_edit_push_frame:
  "fetch_edit_push mgr tr w rp v = (ok, w') \<Longrightarrow> x \<noteq> rp
   \<Longrightarrow> remote_files w' x = remote_files w x"
  by (auto simp: fetch_edit_push_def split: option.splits loaded.splits if_splits)

lemma fetch_edit_push_True:
  "fetch_edit_push mgr tr w rp v = (True, w')
   \<Longrightarrow> \<exists>content data. remote_files w rp = Some content
         \<and> safe_load mgr content = Some (LoadedMap data)
         \<and> remote_files w' rp = Some (safe_dump mgr (assign_num_uniq_key data v))"
  by (auto simp: fetch_edit_push_def split: option.splits loaded.splits if_splits)

lemma edit_item_frame:
  assumes "edit_item mgr tr nc w p v = (r, w')"
    and "\<And>m s. split_once p = Some (m, s) \<Longrightarrow> x \<noteq> remote_path nc m s"
  shows "remote_files w' x = remote_files w x"
proof (cases "split_once p")
  case None
  with assms(1) show ?thesis by (simp add: edit_item_def)
next
  case (Some ms)
  obtain m s where ms: "ms = (m, s)" by (cases ms)
  show ?thesis
  proof (cases "mkstemp_fails tr p")
    case True
    with assms(1) Some ms show ?thesis by (simp add: edit_item_def)
  next
    case False
    let ?w1 = "w\<lparr>scratch := scratch w @ [fresh_scratch (scratch w)]\<rparr>"
    obtain ok w2 where f: "fetch_edit_push mgr tr ?w1 (remote_path nc m s) v = (ok, w2)"
      by (cases "fetch_edit_push mgr tr ?w1 (remote_path nc m s) v")
    have "x \<noteq> remote_path nc m s" using assms(2) Some ms by simp
    with f have "remote_files w2 x = remote_files ?w1 x" by (rule fetch_edit_push_frame)
    moreover have "w' = w2\<lparr>scratch := removeAll (fresh_scratch (scratch w)) (scratch w2)\<rparr>"
      using assms(1) Some ms False f by (simp add: edit_item_def Let_def)
    ultimately show ?thesis by simp
  qed
qed

lemma edit_item_True:
  assumes "edit_item mgr tr nc w p v = (Inr True, w')"
  shows "\<exists>m s content data. split_once p = Some (m, s)
           \<and> remote_files w (remote_path nc m s) = Some content
           \<and> safe_load mgr content = Some (LoadedMap data)
           \<and> remote_files w' (remote_path nc m s)
               = Some (safe_dump mgr (assign_num_uniq_key data v))"
proof (cases "split_once p")
  case None
  with assms show ?thesis by (simp add: edit_item_def)
next
  case (Some ms)
  obtain m s where ms: "ms = (m, s)" by (cases ms)
  show ?thesis
  proof (cases "mkstemp_fails tr p")
    case True
    with assms Some ms show ?thesis by (simp add: edit_item_def)
  next
    case False
    let ?w1 = "w\<lparr>scratch := scratch w @ [fresh_scratch (scratch w)]\<rparr>"
    obtain ok w2 where f: "fetch_edit_push mgr tr ?w1 (remote_path nc m s) v = (ok, w2)"
      by (cases "fetch_edit_push mgr tr ?w1 (remote_path nc m s) v")
    have w': "ok = True" "w' = w2\<lparr>scratch := removeAll (fresh_scratch (scratch w)) (scratch w2)\<rparr>"
      using assms Some ms False f by (simp_all add: edit_item_def Let_def)
    from f w'(1) obtain content data where
      "remote_files ?w1 (remote_path nc m s) = Some content" "safe_load mgr content = Some (LoadedMap data)"
      "remote_files w2 (remote_path nc m s) = Some (safe_dump mgr (assign_num_uniq_key data v))"
      using fetch_edit_push_True [of mgr tr ?w1 "remote_path nc m s" v w2] by auto
    with Some ms w'(2) show ?thesis by simp
  qed
qed

lemma edit_items_results_frame:
  "edit_items mgr tr nc us results w = (Inr results', w') \<Longrightarrow> p \<notin> fst ` set us
   \<Longrightarrow> map_of results' p = map_of results p"
proof (induction us arbitrary: results w)
  case Nil
  then show ?case by simp
next
  case (Cons u us)
  obtain q v where u: "u = (q, v)" by (cases u)
  obtain r1 w1 where e: "edit_item mgr tr nc w q v = (r1, w1)"
    by (cases "edit_item mgr tr nc w q v")
  show ?case
  proof (cases r1)
    case (Inl err)
    with Cons.prems u e show ?thesis by simp
  next
    case (Inr ok)
    with Cons.prems u e
    have "edit_items mgr tr nc us (AList.update q ok results) w1 = (Inr results', w')" by simp
    moreover have "p \<notin> fst ` set us" "p \<noteq> q" using Cons.prems(2) u by auto
    ultimately have "map_of results' p = map_of (AList.update q ok results) p"
      using Cons.IH by blast
    with \<open>p \<noteq> q\<close> show ?thesis by (simp add: AList.update_conv')
  qed
qed

lemma edit_items_frame:
  "edit_items mgr tr nc us results w = (r, w')
   \<Longrightarrow> (\<And>q u m s. (q, u) \<in> set us \<Longrightarrow> split_once q = Some (m, s)
                  \<Longrightarrow> x \<noteq> remote_path nc m s)
   \<Longrightarrow> remote_files w' x = remote_files w x"
proof (induction us arbitrary: results w)
  case Nil
  then show ?case by simp
next
  case (Cons u us)
  obtain q v where u: "u = (q, v)" by (cases u)
  obtain r1 w1 where e: "edit_item mgr tr nc w q v = (r1, w1)"
    by (cases "edit_item mgr tr nc w q v")
  have f1: "remote_files w1 x = remote_files w x"
    using e Cons.prems(2) [of q v] u by (intro edit_item_frame [OF e]) auto
  show ?case
  proof (cases r1)
    case (Inl err)
    with Cons.prems(1) u e f1 show ?thesis by simp
  next
    case (Inr ok)
    with Cons.prems(1) u e
    have "edit_items mgr tr nc us (AList.update q ok results) w1 = (r, w')" by simp
    then have "remote_files w' x = remote_files w1 x"
      using Cons.prems(2) by (intro Cons.IH) auto
    with f1 show ?thesis by simp
  qed
qed

lemma edit_items_written:
  "edit_items mgr tr nc us results w = (Inr results', w') \<Longrightarrow> distinct (map fst us)
   \<Longrightarrow> (p, v) \<in> set us \<Longrightarrow> map_of results' p = Some True
   \<Longrightarrow> \<exists>m s content data. split_once p = Some (m, s)
           \<and> remote_files w (remote_path nc m s) = Some content
           \<and> safe_load mgr content = Some (LoadedMap data)
           \<and> remote_files w' (remote_path nc m s)
               = Some (safe_dump mgr (assign_num_uniq_key data v))"
proof (induction us arbitrary: results w)
  case Nil
  then show ?case by simp
next
  case (Cons u us)
  obtain q x where u: "u = (q, x)" by (cases u)
  obtain r1 w1 where e: "edit_item mgr tr nc w q x = (r1, w1)"
    by (cases "edit_item mgr tr nc w q x")
  from Cons.prems(1) u e obtain ok where ok: "r1 = Inr ok"
    and rest: "edit_items mgr tr nc us (AList.update q ok results) w1 = (Inr results', w')"
    by (cases r1) auto
  from Cons.prems(2) u have dq: "q \<notin> fst ` set us" and dus: "distinct (map fst us)" by auto
  show ?case
  proof (cases "p = q")
    case True
    with Cons.prems(3) u dq have vx: "v = x" by force
    have "map_of results' q = map_of (AList.update q ok results) q"
      using rest dq by (rule edit_items_results_frame)
    with Cons.prems(4) True have "ok = True" by (simp add: AList.update_conv')
    with e ok True vx have "edit_item mgr tr nc w p v = (Inr True, w1)" by simp
    then obtain m s content data where d: "split_once p = Some (m, s)"
      "remote_files w (remote_path nc m s) = Some content" "safe_load mgr content = Some (LoadedMap data)"
      "remote_files w1 (remote_path nc m s) = Some (safe_dump mgr (assign_num_uniq_key data v))"
      using edit_item_True by blast
    have "remote_files w' (remote_path nc m s) = remote_files w1 (remote_path nc m s)"
    proof (rule edit_items_frame [OF rest])
      fix q' u' m' s'
      assume a: "(q', u') \<in> set us" "split_once q' = Some (m', s')"
      then have "q' \<noteq> p" using dq True by force
      then show "remote_path nc m s \<noteq> remote_path nc m' s'"
        using remote_path_inj [OF d(1) a(2)] by blast
    qed
    with d show ?thesis by auto
  next
    case False
    with Cons.prems(3) u have pin: "(p, v) \<in> set us" by auto
    from Cons.IH [OF rest dus pin Cons.prems(4)]
    obtain m s content data where d: "split_once p = Some (m, s)"
      "remote_files w1 (remote_path nc m s) = Some content" "safe_load mgr content = Some (LoadedMap data)"
      "remote_files w' (remote_path nc m s) = Some (safe_dump mgr (assign_num_uniq_key data v))"
      by blast
    have "remote_files w1 (remote_path nc m s) = remote_files w (remote_path nc m s)"
    proof (rule edit_item_frame [OF e])
      fix m' s'
      assume "split_once q = Some (m', s')"
      then show "remote_path nc m s \<noteq> remote_path nc m' s'"
        using remote_path_inj [OF d(1)] False by blast
    qed
    with d show ?thesis by auto
  qed
qed

lemma bulk_edit_True_from_items:
  assumes b: "bulk_edit_submodule_unique_keys mgr tr w node_name us flag = (results, w')"
    and t: "map_of results p = Some True"
    and n: "map_of (nodes mgr) node_name = Some nc"
  shows "edit_items mgr tr nc us [] w = (Inr results, w')"
proof -
  have af: "map_of (all_false us) p \<noteq> Some True"
    by (induction us) (auto simp: all_false_def)
  obtain r w1 where e: "edit_items mgr tr nc us [] w = (r, w1)"
    by (cases "edit_items mgr tr nc us [] w")
  show ?thesis
  proof (cases r)
    case (Inl err)
    with b n e t af show ?thesis
      by (auto simp: bulk_edit_submodule_unique_keys_def create_ssh_connection_def split: if_splits sum.splits)
  next
    case (Inr rs)
    with b n e t af show ?thesis
      by (auto simp: bulk_edit_submodule_unique_keys_def create_ssh_connection_def split: if_splits sum.splits)
  qed
qed

lemma edit_item_any_value:
  "fst (edit_item mgr tr nc w p v) = fst (edit_item mgr tr nc w p v')"
  by (auto simp: edit_item_def fetch_edit_push_def Let_def
      split: option.splits loaded.splits prod.splits if_splits)

lemma assign_num_uniq_key_value:
  "NumUniqKey (uniquekey (assign_num_uniq_key data v)) = Some (YInt v)"
  by (simp add: assign_num_uniq_key_def split: uniquekey_value.splits)

text \<open>
  An item whose scratch file can be created, whose remote file can be fetched, loads as a
  mapping and can be pushed, is a success for every integer, and the remote file then
  holds the document with that integer as its key.
\<close>

lemma edit_item_writes_any_value:
  assumes sp: "split_once p = Some (m, s)" and mk: "\<not> mkstemp_fails tr p"
    and g: "\<not> get_fails tr (remote_path nc m s)"
    and c: "remote_files w (remote_path nc m s) = Some content"
    and l: "safe_load mgr content = Some (LoadedMap data)"
    and pt: "\<not> put_fails tr (remote_path nc m s)"
  shows "edit_item mgr tr nc w p v
           = (Inr True,
              w\<lparr>remote_files := (remote_files w)
                   (remote_path nc m s \<mapsto> safe_dump mgr (assign_num_uniq_key data v))\<rparr>)"
proof -
  have "removeAll (fresh_scratch (scratch w)) (scratch w) = scratch w"
    using fresh_scratch_notin [of "scratch w"] by simp
  then show ?thesis
    using assms by (simp add: edit_item_def fetch_edit_push_def Let_def)
qed

lemma bulk_edit_without_backup_writes_any_value:
  assumes "map_of (nodes mgr) node_name = Some nc" "enabled nc \<noteq> Some False"
    and "\<not> connect_fails tr"
    and "split_once p = Some (m, s)" "\<not> mkstemp_fails tr p"
    and "\<not> get_fails tr (remote_path nc m s)"
    and "remote_files w (remote_path nc m s) = Some content"
    and "safe_load mgr content = Some (LoadedMap data)"
    and "\<not> put_fails tr (remote_path nc m s)"
  shows "bulk_edit_submodule_unique_keys mgr tr w node_name [(p, v)] False
           = ([(p, True)],
              w\<lparr>remote_files := (remote_files w)
                   (remote_path nc m s \<mapsto> safe_dump mgr (assign_num_uniq_key data v))\<rparr>)"
proof -
  have e: "enabled nc = None \<or> enabled nc = Some True"
    using assms(2) by (cases "enabled nc") auto
  show ?thesis
    using assms(1,3) e edit_item_writes_any_value [OF assms(4-9), of v]
    by (auto simp: bulk_edit_submodule_unique_keys_def create_ssh_connection_def)
qed

lemmas bulk_simps = bulk_edit_submodule_unique_keys_def create_ssh_connection_def create_node_backup_def all_false_def
  edit_item_def fetch_edit_push_def split_once_def remote_path_def fresh_scratch_def
  assign_num_uniq_key_def Let_def AList.update.simps

lemmas demo_cluster_simps = demo_manager_def demo_node_def demo_world_def demo_transport_def
  demo_safe_load_def demo_load_def demo_dump_def empty_config_def ascii_digit_def is_digit_def
  decimal_def int_of_digits_def digit_val_def ascii_def str_int_def str_nat.simps
  digit_char_def

lemma demo_bulk_no_backup:
  "fst (bulk_edit_submodule_unique_keys demo_manager demo_transport demo_world ''n1''
        [(''A/x'', 7), (''A/y'', 8), (''B/s1'', 9)] False)
   = [(''A/x'', True), (''A/y'', False), (''B/s1'', True)]"
  by (simp add: bulk_simps demo_cluster_simps)


text \<open>
  Claim C10, where the code departs from it. No statement of the bulk edit compares the
  new value with a bound: with \<^verbatim>\<open>create_backup=False\<close> the values 0 and 1000000001, both
  outside \<open>[1, MAX_UNIQUE_KEY]\<close> of the small installation, are written to the node as
  they are. But with \<^verbatim>\<open>create_backup=True\<close>, the default, the call of the backup method
  that does not exist raises before anything is fetched: every item is reported \<open>False\<close>
  and the files on the node keep their keys, so no value is written at all.
\<close>

theorem bulk_edit_default_writes_nothing:
  "bulk_edit_submodule_unique_keys demo_manager demo_transport demo_world ''n1''
       [(''A/x'', 0), (''B/s1'', 1000000001)] True
     = ([(''A/x'', False), (''B/s1'', False)], demo_world)
   \<and> remote_files demo_world ''/opt/conf.d/A/x.yml'' = Some ''1''
   \<and> remote_files demo_world ''/opt/conf.d/B/s1.yml'' = Some ''3''
   \<and> fst (bulk_edit_submodule_unique_keys demo_manager demo_transport demo_world ''n1''
            [(''A/x'', 0), (''B/s1'', 1000000001)] False)
     = [(''A/x'', True), (''B/s1'', True)]
   \<and> remote_files (snd (bulk_edit_submodule_unique_keys demo_manager demo_transport
                           demo_world ''n1'' [(''A/x'', 0), (''B/s1'', 1000000001)] False))
         ''/opt/conf.d/A/x.yml'' = Some ''0''
   \<and> remote_files (snd (bulk_edit_submodule_unique_keys demo_manager demo_transport
                           demo_world ''n1'' [(''A/x'', 0), (''B/s1'', 1000000001)] False))
         ''/opt/conf.d/B/s1.yml'' = Some ''1000000001''
   \<and> \<not> key_in_range demo_env (PyInt 0)
   \<and> \<not> key_in_range demo_env (PyInt 1000000001)"
proof -
  let ?us = "[(''A/x'', 0 :: int), (''B/s1'', 1000000001)]"
  have t: "bulk_edit_submodule_unique_keys demo_manager demo_transport demo_world ''n1''
             ?us True = ([(''A/x'', False), (''B/s1'', False)], demo_world)"
    by (simp add: bulk_edit_submodule_unique_keys_def create_node_backup_def all_false_def
        demo_manager_def demo_node_def)
  have o: "remote_files demo_world ''/opt/conf.d/A/x.yml'' = Some ''1''"
    "remote_files demo_world ''/opt/conf.d/B/s1.yml'' = Some ''3''"
    by (simp_all add: demo_world_def)
  have f: "fst (bulk_edit_submodule_unique_keys demo_manager demo_transport demo_world ''n1''
            ?us False) = [(''A/x'', True), (''B/s1'', True)]"
    by (simp add: bulk_simps demo_cluster_simps)
  have x: "remote_files (snd (bulk_edit_submodule_unique_keys demo_manager demo_transport
                           demo_world ''n1'' ?us False)) ''/opt/conf.d/A/x.yml'' = Some ''0''"
    by (simp add: bulk_simps demo_cluster_simps)
  have y: "remote_files (snd (bulk_edit_submodule_unique_keys demo_manager demo_transport
                           demo_world ''n1'' ?us False)) ''/opt/conf.d/B/s1.yml''
             = Some ''1000000001''"
    by (simp add: bulk_simps demo_cluster_simps)
  have k: "\<not> key_in_range demo_env (PyInt 0)" "\<not> key_in_range demo_env (PyInt 1000000001)"
    by (simp_all add: key_in_range_def demo_env_def)
  show ?thesis using t o f x y k by simp
qed

text \<open>
  Claim C3 at its failing input. With \<^verbatim>\<open>create_backup=True\<close>, the default, the call of the
  method that does not exist raises inside the outer \<^verbatim>\<open>try\<close>, and the bulk edit returns
  \<open>False\<close> for every path without connecting or touching the node: three updates with a
  transport failure on the second give three \<open>False\<close> entries. With \<^verbatim>\<open>create_backup=False\<close>
  the same call gives \<open>True\<close>, \<open>False\<close>, \<open>True\<close> and leaves no scratch file.
\<close>

theorem bulk_edit_with_backup_all_false:
  "bulk_edit_submodule_unique_keys mgr tr w node_name us True = (all_false us, w)
   \<and> bulk_edit_submodule_unique_keys demo_manager demo_transport demo_world ''n1''
         [(''A/x'', 7), (''A/y'', 8), (''B/s1'', 9)] True
       = ([(''A/x'', False), (''A/y'', False), (''B/s1'', False)], demo_world)
   \<and> fst (bulk_edit_submodule_unique_keys demo_manager demo_transport demo_world ''n1''
           [(''A/x'', 7), (''A/y'', 8), (''B/s1'', 9)] False)
       = [(''A/x'', True), (''A/y'', False), (''B/s1'', True)]
   \<and> scratch (snd (bulk_edit_submodule_unique_keys demo_manager demo_transport demo_world
                      ''n1'' [(''A/x'', 7), (''A/y'', 8), (''B/s1'', 9)] False)) = []"
proof -
  have g: "bulk_edit_submodule_unique_keys mgr tr w node_name us True = (all_false us, w)"
    for mgr tr w node_name us
    by (simp add: bulk_edit_submodule_unique_keys_def create_ssh_connection_def create_node_backup_def
        split: option.splits)
  have s: "scratch (snd (bulk_edit_submodule_unique_keys demo_manager demo_transport demo_world
                      ''n1'' [(''A/x'', 7), (''A/y'', 8), (''B/s1'', 9)] False)) = []"
    by (simp add: bulk_simps demo_cluster_simps)
  show ?thesis
    using g [of demo_manager demo_transport demo_world "''n1''"
        "[(''A/x'', 7), (''A/y'', 8), (''B/s1'', 9)]"] g demo_bulk_no_backup s
    by (simp add: all_false_def)
qed

text \<open>Without the backup step the batch is best effort.\<close>

lemma edit_items_keys:
  "edit_items mgr tr nc us results w = (Inr results', w')
   \<Longrightarrow> fst ` set results' = fst ` set results \<union> fst ` set us"
proof (induction us arbitrary: results w)
  case Nil
  then show ?case by simp
next
  case (Cons u us)
  obtain q v where u: "u = (q, v)" by (cases u)
  obtain r1 w1 where e: "edit_item mgr tr nc w q v = (r1, w1)"
    by (cases "edit_item mgr tr nc w q v")
  from Cons.prems u e obtain ok where
    "edit_items mgr tr nc us (AList.update q ok results) w1 = (Inr results', w')"
    by (cases r1) auto
  from Cons.IH [OF this] u show ?case by (auto simp: AList.dom_update)
qed

lemma edit_item_no_exception:
  "\<not> mkstemp_fails tr p \<Longrightarrow> \<exists>ok. fst (edit_item mgr tr nc w p v) = Inr ok"
  by (auto simp: edit_item_def Let_def split: option.splits prod.splits)

lemma edit_items_no_exception:
  "(\<And>p v. (p, v) \<in> set us \<Longrightarrow> \<not> mkstemp_fails tr p)
   \<Longrightarrow> \<exists>results'. fst (edit_items mgr tr nc us results w) = Inr results'"
proof (induction us arbitrary: results w)
  case Nil
  then show ?case by simp
next
  case (Cons u us)
  obtain q v where u: "u = (q, v)" by (cases u)
  obtain r1 w1 where e: "edit_item mgr tr nc w q v = (r1, w1)"
    by (cases "edit_item mgr tr nc w q v")
  have "\<not> mkstemp_fails tr q" using Cons.prems u by auto
  then obtain ok where ok: "r1 = Inr ok"
    using edit_item_no_exception [of tr q mgr nc w v] e by auto
  have "\<And>p v. (p, v) \<in> set us \<Longrightarrow> \<not> mkstemp_fails tr p" using Cons.prems by auto
  from Cons.IH [where results = "AList.update q ok results" and w = w1, OF this]
  show ?case using u e ok by simp
qed

lemma bulk_edit_scratch:
  "scratch (snd (bulk_edit_submodule_unique_keys mgr tr w node_name us flag)) = scratch w"
  by (auto simp: bulk_edit_submodule_unique_keys_def create_ssh_connection_def
      split: option.splits sum.splits prod.splits dest: edit_items_scratch)

lemma bulk_edit_without_backup_best_effort:
  assumes "map_of (nodes mgr) node_name = Some nc" "enabled nc \<noteq> Some False"
    and "\<not> connect_fails tr" and "\<And>p v. (p, v) \<in> set us \<Longrightarrow> \<not> mkstemp_fails tr p"
  shows "\<exists>rs w'. bulk_edit_submodule_unique_keys mgr tr w node_name us False = (rs, w')
           \<and> fst ` set rs = fst ` set us \<and> scratch w' = scratch w"
proof -
  obtain rs w1 where e: "edit_items mgr tr nc us [] w = (Inr rs, w1)"
    using edit_items_no_exception [of us tr mgr nc "[]" w] assms(4)
    by (cases "edit_items mgr tr nc us [] w") auto
  have "fst ` set rs = fst ` set us" using edit_items_keys [OF e] by simp
  moreover have "bulk_edit_submodule_unique_keys mgr tr w node_name us False = (rs, w1)"
    using assms(1-3) e
    by (auto simp: bulk_edit_submodule_unique_keys_def create_ssh_connection_def split: option.splits)
  moreover have "scratch w1 = scratch w" using e by (rule edit_items_scratch)
  ultimately show ?thesis by auto
qed

section \<open>Properties of submodule discovery\<close>




























end
